theory Spec2Isabelle
  imports Main "HOL-Library.Word" "HOL-Library.AList"
begin

unbundle bit_operations_syntax

section \<open>The LISY platform driver (mpf/platforms/lisy/lisy.py)\<close>

subsection \<open>Bytes, errors and Python builtins\<close>

type_synonym byte = "8 word"

text \<open>
  Every exception the modelled code can raise. \<open>AssertionError\<close> carries the message
  template of the \<^verbatim>\<open>raise\<close> statement (its \<^verbatim>\<open>format\<close> arguments are not rendered).
  \<open>AttributeError\<close> is a method call on \<^verbatim>\<open>None\<close> (\<^verbatim>\<open>self._writer\<close> and \<^verbatim>\<open>self._reader\<close>
  are \<^verbatim>\<open>None\<close> until \<^verbatim>\<open>initialize\<close> has connected), \<open>TypeError\<close> an order comparison
  with \<^verbatim>\<open>None\<close>, \<open>ValueError\<close> comes from \<^verbatim>\<open>int(str)\<close> and \<^verbatim>\<open>bytes([...])\<close>, and
  \<open>IncompleteReadError\<close> from a read that meets the end of the stream.
\<close>

datatype error =
    AssertionError string
  | ValueError
  | TypeError
  | AttributeError
  | IncompleteReadError

text \<open>
  \<^verbatim>\<open>bytes(list_of_ints)\<close>: every element must be in \<^verbatim>\<open>range(256)\<close>, otherwise
  \<^verbatim>\<open>ValueError\<close>.
\<close>

definition py_bytes :: "int list \<Rightarrow> error + byte list" where
  "py_bytes xs =
     (if list_all (\<lambda>x. 0 \<le> x \<and> x < 256) xs then Inr (map word_of_int xs)
      else Inl ValueError)"

text \<open>
  \<^verbatim>\<open>int(x / 256)\<close> for an integer \<^verbatim>\<open>x\<close>: true division, then truncation towards zero.
  The quotient by a power of two is exact in floating point for \<open>\<bar>x\<bar> < 2 ^ 53\<close>. Beyond
  that the division overflows or its rounded quotient stays above \<open>2 ^ 44\<close> in
  magnitude, far outside \<^verbatim>\<open>range(256)\<close>, as the exact one is; the value is only used as
  an element of \<^verbatim>\<open>bytes([...])\<close>, so the source raises there in any case, and so does the
  model (as \<open>ValueError\<close>).
\<close>

definition int_div_256 :: "int \<Rightarrow> int" where
  "int_div_256 x = (if 0 \<le> x then x div 256 else - ((- x) div 256))"

text \<open>\<^verbatim>\<open>str(n)\<close> for an integer: its decimal digits, with a minus sign when negative.\<close>

definition digit_char :: "nat \<Rightarrow> char" where
  "digit_char d = char_of (48 + d)"

function str_nat :: "nat \<Rightarrow> string" where
  "str_nat n = (if n < 10 then [digit_char n] else str_nat (n div 10) @ [digit_char (n mod 10)])"
  by pat_completeness auto
termination
  by (relation "measure id") auto

declare str_nat.simps [simp del]

definition py_str :: "int \<Rightarrow> string" where
  "py_str i = (if i < 0 then CHR ''-'' # str_nat (nat (- i)) else str_nat (nat i))"

text \<open>A bytes literal such as \<^verbatim>\<open>b'LISY1'\<close>: the codes of its characters.\<close>

definition bytes_literal :: "string \<Rightarrow> byte list" where
  "bytes_literal s = map (\<lambda>c. of_char c) s"

subsection \<open>Command codes\<close>

text \<open>
  \<^verbatim>\<open>LisyDefines\<close> (mpf/platforms/lisy/defines.py) holds the protocol's command codes. The
  module is not part of the sources at hand, so the codes the modelled functions use are
  taken as a parameter: one byte each.
\<close>

record LisyDefines =
  GeneralReset :: byte
  InfoGetConnectedLisyHardware :: byte
  InfoGetNumberOfLamps :: byte
  InfoGetNumberOfSolenoids :: byte
  InfoGetNumberOfDisplays :: byte
  SwitchesGetStatusOfSwitch :: byte
  SwitchesGetChangedSwitches :: byte
  SolenoidsSetSolenoidPulseTime :: byte
  SolenoidsPulseSolenioid :: byte
  SolenoidsSetSolenoidToOn :: byte
  SolenoidsSetSolenoidToOff :: byte

subsection \<open>The platform object\<close>

text \<open>
  The third argument of \<^verbatim>\<open>process_switch_by_num\<close> is the platform itself.
\<close>

datatype platform_ref = Self

text \<open>
  The attributes of \<^verbatim>\<open>LisyHardwarePlatform\<close> together with the world it talks to:
  \<^item> \<open>writer\<close>: \<^verbatim>\<open>None\<close>, or the stream writer, as the list of the \<^verbatim>\<open>write\<close> calls made so
    far, oldest first;
  \<^item> \<open>reader\<close>: \<^verbatim>\<open>None\<close>, or the stream reader, as the bytes the controller will still
    deliver; the list ends where the connection does;
  \<^item> \<open>inputs\<close>: the dict \<^verbatim>\<open>_inputs\<close>, in insertion order;
  \<^item> \<open>switch_events\<close>: the calls of \<^verbatim>\<open>machine.switch_controller.process_switch_by_num\<close>,
    oldest first;
  \<^item> \<open>sleeps\<close>: how often \<^verbatim>\<open>asyncio.sleep(.001)\<close> was awaited;
  \<^item> \<open>poll_task\<close>: whether the poll task has been created.
\<close>

record platform =
  writer :: "byte list list option"
  reader :: "byte list option"
  poll_task :: bool
  number_of_lamps :: "int option"
  number_of_solenoids :: "int option"
  number_of_displays :: "int option"
  inputs :: "(string \<times> bool) list"
  system_type :: "int option"
  switch_events :: "(string \<times> int \<times> platform_ref) list"
  sleeps :: nat

text \<open>\<^verbatim>\<open>LisyHardwarePlatform.__init__\<close>.\<close>

definition init_platform :: platform where
  "init_platform =
     \<lparr>writer = None, reader = None, poll_task = False, number_of_lamps = None,
      number_of_solenoids = None, number_of_displays = None, inputs = [],
      system_type = None, switch_events = [], sleeps = 0\<rparr>"

text \<open>\<^verbatim>\<open>self.features['max_pulse'] = 65536\<close>, set by \<^verbatim>\<open>__init__\<close>.\<close>

definition max_pulse :: int where
  "max_pulse = 65536"

text \<open>
  A method either returns a value or raises; in both cases the object is left in the
  state reached so far.
\<close>

type_synonym 'a result = "(error + 'a) \<times> platform"

definition and_then ::
  "(platform \<Rightarrow> 'a result) \<Rightarrow> ('a \<Rightarrow> platform \<Rightarrow> 'b result) \<Rightarrow> platform \<Rightarrow> 'b result" where
  "and_then m f st = (case m st of (Inl e, st') \<Rightarrow> (Inl e, st') | (Inr x, st') \<Rightarrow> f x st')"

text \<open>\<^verbatim>\<open>self._writer.write(data)\<close>.\<close>

definition writer_write :: "byte list \<Rightarrow> platform \<Rightarrow> unit result" where
  "writer_write bs st =
     (case writer st of
        None \<Rightarrow> (Inl AttributeError, st)
      | Some w \<Rightarrow> (Inr (), st\<lparr>writer := Some (w @ [bs])\<rparr>))"

text \<open>\<^verbatim>\<open>send_byte(cmd, byte=None)\<close>: the command byte, then the payload when there is one.\<close>

definition send_byte :: "byte \<Rightarrow> byte list option \<Rightarrow> platform \<Rightarrow> unit result" where
  "send_byte cmd byte st =
     (case byte of
        Some bs \<Rightarrow> writer_write ([cmd] @ bs) st
      | None \<Rightarrow> writer_write [cmd] st)"

text \<open>\<^verbatim>\<open>read_byte()\<close>: \<^verbatim>\<open>readexactly(1)\<close>, then \<^verbatim>\<open>ord\<close>.\<close>

definition read_byte :: "platform \<Rightarrow> byte result" where
  "read_byte st =
     (case reader st of
        None \<Rightarrow> (Inl AttributeError, st)
      | Some [] \<Rightarrow> (Inl IncompleteReadError, st)
      | Some (b # bs) \<Rightarrow> (Inr b, st\<lparr>reader := Some bs\<rparr>))"

text \<open>
  \<^verbatim>\<open>read_string()\<close>: \<^verbatim>\<open>readuntil(b'\x00')\<close>, then the terminator is cut off. When the
  stream ends before a zero byte the read raises and the buffer is emptied.
\<close>

definition read_string :: "platform \<Rightarrow> byte list result" where
  "read_string st =
     (case reader st of
        None \<Rightarrow> (Inl AttributeError, st)
      | Some bs \<Rightarrow>
          if 0 \<in> set bs
          then (Inr (takeWhile (\<lambda>b. b \<noteq> 0) bs),
                st\<lparr>reader := Some (tl (dropWhile (\<lambda>b. b \<noteq> 0) bs))\<rparr>)
          else (Inl IncompleteReadError, st\<lparr>reader := Some []\<rparr>))"

subsection \<open>Hardware rules\<close>

text \<open>
  The five rule methods of \<^verbatim>\<open>LisyHardwarePlatform\<close> raise at once, whatever the switch
  and coil settings are.
\<close>

definition hardware_rules_message :: string where
  "hardware_rules_message = ''Hardware rules are not support in LISY.''"

definition set_pulse_on_hit_and_enable_and_release_rule ::
  "'sw \<Rightarrow> 'coil \<Rightarrow> platform \<Rightarrow> unit result" where
  "set_pulse_on_hit_and_enable_and_release_rule enable_switch coil st =
     (Inl (AssertionError hardware_rules_message), st)"

definition set_pulse_on_hit_and_enable_and_release_and_disable_rule ::
  "'sw \<Rightarrow> 'sw \<Rightarrow> 'coil \<Rightarrow> platform \<Rightarrow> unit result" where
  "set_pulse_on_hit_and_enable_and_release_and_disable_rule enable_switch disable_switch coil st =
     (Inl (AssertionError hardware_rules_message), st)"

definition set_pulse_on_hit_and_release_rule ::
  "'sw \<Rightarrow> 'coil \<Rightarrow> platform \<Rightarrow> unit result" where
  "set_pulse_on_hit_and_release_rule enable_switch coil st =
     (Inl (AssertionError hardware_rules_message), st)"

definition set_pulse_on_hit_rule :: "'sw \<Rightarrow> 'coil \<Rightarrow> platform \<Rightarrow> unit result" where
  "set_pulse_on_hit_rule enable_switch coil st =
     (Inl (AssertionError hardware_rules_message), st)"

definition clear_hw_rule :: "'sw \<Rightarrow> 'coil \<Rightarrow> platform \<Rightarrow> unit result" where
  "clear_hw_rule switch coil st = (Inl (AssertionError hardware_rules_message), st)"

subsection \<open>Solenoid drivers\<close>

text \<open>
  \<^verbatim>\<open>int(s)\<close> on a string is taken as a parameter \<open>py_int\<close> of the functions that call it:
  \<open>None\<close> where Python raises \<^verbatim>\<open>ValueError\<close>, the number otherwise.
\<close>

type_synonym int_parser = "string \<Rightarrow> int option"

text \<open>
  \<^verbatim>\<open>LisyDriver\<close>: the number it was configured with (a string) and \<^verbatim>\<open>_pulse_ms\<close>.
  \<^verbatim>\<open>configure_driver\<close> creates it with \<^verbatim>\<open>_pulse_ms = -1\<close> and performs no check.
\<close>

record LisyDriver =
  number :: string
  pulse_ms :: int

definition configure_driver :: "string \<Rightarrow> LisyDriver" where
  "configure_driver num = \<lparr>number = num, pulse_ms = - 1\<rparr>"

text \<open>Of \<^verbatim>\<open>PulseSettings\<close> the driver reads the duration only.\<close>

record PulseSettings =
  duration :: int

type_synonym 'a driver_result = "(error + 'a) \<times> LisyDriver \<times> platform"

text \<open>The expression \<^verbatim>\<open>bytes([int(self.number)])\<close>.\<close>

definition number_bytes :: "int_parser \<Rightarrow> LisyDriver \<Rightarrow> error + byte list" where
  "number_bytes py_int drv =
     (case py_int (number drv) of None \<Rightarrow> Inl ValueError | Some n \<Rightarrow> py_bytes [n])"

text \<open>
  \<^verbatim>\<open>_configure_pulse_ms\<close>: the attribute is assigned first, then the payload is built
  (\<^verbatim>\<open>int(self.number)\<close>, \<^verbatim>\<open>int(pulse_ms / 256)\<close>, \<^verbatim>\<open>pulse_ms % 256\<close>, then \<^verbatim>\<open>bytes\<close>), then
  the command is sent.
\<close>

definition configure_pulse_ms ::
  "int_parser \<Rightarrow> LisyDefines \<Rightarrow> int \<Rightarrow> LisyDriver \<times> platform \<Rightarrow> unit driver_result" where
  "configure_pulse_ms py_int D ms ds =
     (case ds of (drv, st) \<Rightarrow>
        if ms \<noteq> pulse_ms drv then
          (let drv' = drv\<lparr>pulse_ms := ms\<rparr> in
           case py_int (number drv') of
             None \<Rightarrow> (Inl ValueError, drv', st)
           | Some n \<Rightarrow>
               (case py_bytes [n, int_div_256 ms, ms mod 256] of
                  Inl e \<Rightarrow> (Inl e, drv', st)
                | Inr bs \<Rightarrow>
                    (case send_byte (SolenoidsSetSolenoidPulseTime D) (Some bs) st of
                       (r, st') \<Rightarrow> (r, drv', st'))))
        else (Inr (), drv, st))"

text \<open>What \<^verbatim>\<open>pulse\<close>, \<^verbatim>\<open>enable\<close> and \<^verbatim>\<open>disable\<close> end with: a command with the number as payload.\<close>

definition send_number ::
  "int_parser \<Rightarrow> byte \<Rightarrow> LisyDriver \<times> platform \<Rightarrow> unit driver_result" where
  "send_number py_int cmd ds =
     (case ds of (drv, st) \<Rightarrow>
        (case number_bytes py_int drv of
           Inl e \<Rightarrow> (Inl e, drv, st)
         | Inr bs \<Rightarrow> (case send_byte cmd (Some bs) st of (r, st') \<Rightarrow> (r, drv, st'))))"

definition pulse ::
  "int_parser \<Rightarrow> LisyDefines \<Rightarrow> PulseSettings \<Rightarrow> LisyDriver \<times> platform \<Rightarrow> unit driver_result" where
  "pulse py_int D pulse_settings ds =
     (case configure_pulse_ms py_int D (duration pulse_settings) ds of
        (Inl e, ds') \<Rightarrow> (Inl e, ds')
      | (Inr u, ds') \<Rightarrow> send_number py_int (SolenoidsPulseSolenioid D) ds')"

definition enable ::
  "int_parser \<Rightarrow> LisyDefines \<Rightarrow> PulseSettings \<Rightarrow> 'hold \<Rightarrow> LisyDriver \<times> platform \<Rightarrow>
     unit driver_result" where
  "enable py_int D pulse_settings hold_settings ds =
     (case configure_pulse_ms py_int D (duration pulse_settings) ds of
        (Inl e, ds') \<Rightarrow> (Inl e, ds')
      | (Inr u, ds') \<Rightarrow> send_number py_int (SolenoidsSetSolenoidToOn D) ds')"

definition disable ::
  "int_parser \<Rightarrow> LisyDefines \<Rightarrow> LisyDriver \<times> platform \<Rightarrow> unit driver_result" where
  "disable py_int D ds = send_number py_int (SolenoidsSetSolenoidToOff D) ds"

text \<open>A caller's sequence of \<^verbatim>\<open>pulse\<close> and \<^verbatim>\<open>enable\<close> calls; it ends at the first that raises.\<close>

datatype driver_call = Pulse PulseSettings | Enable PulseSettings

fun call_settings :: "driver_call \<Rightarrow> PulseSettings" where
  "call_settings (Pulse ps) = ps"
| "call_settings (Enable ps) = ps"

fun run_call ::
  "int_parser \<Rightarrow> LisyDefines \<Rightarrow> driver_call \<Rightarrow> LisyDriver \<times> platform \<Rightarrow> unit driver_result" where
  "run_call py_int D (Pulse ps) ds = pulse py_int D ps ds"
| "run_call py_int D (Enable ps) ds = enable py_int D ps () ds"

fun run_calls ::
  "int_parser \<Rightarrow> LisyDefines \<Rightarrow> driver_call list \<Rightarrow> LisyDriver \<times> platform \<Rightarrow> unit driver_result" where
  "run_calls py_int D [] ds = (Inr (), ds)"
| "run_calls py_int D (c # cs) ds =
     (case run_call py_int D c ds of
        (Inl e, ds') \<Rightarrow> (Inl e, ds')
      | (Inr u, ds') \<Rightarrow> run_calls py_int D cs ds')"

text \<open>
  The command stream the specification describes for a sequence of calls on one driver
  whose number byte is \<open>n\<close> and whose stored duration is \<open>stored\<close>: each call sends its
  own command, preceded by a "set pulse time" command (number, then the two duration
  bytes as the driver computes them) exactly when its duration differs from the stored
  one, which it then replaces. \<open>spec_stored\<close> is the stored duration at the end.
\<close>

fun call_command :: "LisyDefines \<Rightarrow> driver_call \<Rightarrow> byte" where
  "call_command D (Pulse ps) = SolenoidsPulseSolenioid D"
| "call_command D (Enable ps) = SolenoidsSetSolenoidToOn D"

fun spec_writes :: "LisyDefines \<Rightarrow> byte \<Rightarrow> int \<Rightarrow> driver_call list \<Rightarrow> byte list list" where
  "spec_writes D n stored [] = []"
| "spec_writes D n stored (c # cs) =
     (let d = duration (call_settings c) in
      (if d \<noteq> stored
       then [[SolenoidsSetSolenoidPulseTime D, n, word_of_int (int_div_256 d),
              word_of_int (d mod 256)]]
       else []) @
      [[call_command D c, n]] @ spec_writes D n d cs)"

fun spec_stored :: "int \<Rightarrow> driver_call list \<Rightarrow> int" where
  "spec_stored stored [] = stored"
| "spec_stored stored (c # cs) = spec_stored (duration (call_settings c)) cs"

subsection \<open>Initialisation\<close>

text \<open>
  \<^verbatim>\<open>initialize\<close> from the point where the connector has delivered the stream pair:
  \<open>incoming\<close> is what the controller will send on the new connection. Validation of the
  configuration and logging are left to the framework.
\<close>

definition connect :: "byte list \<Rightarrow> platform \<Rightarrow> unit result" where
  "connect incoming st = (Inr (), st\<lparr>reader := Some incoming, writer := Some []\<rparr>)"

definition reset_failed_message :: string where
  "reset_failed_message = ''Reset of LISY failed. Got {} instead of 0''"

definition invalid_version_message :: string where
  "invalid_version_message = ''Invalid LISY hardware version {}''"

definition invalid_switch_message :: string where
  "invalid_switch_message = ''Invalid switch {}. Got response: {}''"

text \<open>Lines 134 to 138: reset platform.\<close>

definition reset_platform :: "LisyDefines \<Rightarrow> platform \<Rightarrow> unit result" where
  "reset_platform D =
     and_then (send_byte (GeneralReset D) None) (\<lambda>u.
     and_then read_byte (\<lambda>return_code st.
       if return_code \<noteq> 0 then (Inl (AssertionError reset_failed_message), st)
       else (Inr (), st)))"

text \<open>Lines 140 to 149: get type (system 1 vs system 80).\<close>

definition get_type :: "LisyDefines \<Rightarrow> platform \<Rightarrow> unit result" where
  "get_type D =
     and_then (send_byte (InfoGetConnectedLisyHardware D) None) (\<lambda>u.
     and_then read_string (\<lambda>type_str st.
       if type_str = bytes_literal ''LISY1'' then (Inr (), st\<lparr>system_type := Some 1\<rparr>)
       else if type_str = bytes_literal ''LISY80'' then (Inr (), st\<lparr>system_type := Some 80\<rparr>)
       else (Inl (AssertionError invalid_version_message), st)))"

text \<open>Lines 151 to 161: number of lamps, of solenoids, of displays.\<close>

definition get_numbers :: "LisyDefines \<Rightarrow> platform \<Rightarrow> unit result" where
  "get_numbers D =
     and_then (send_byte (InfoGetNumberOfLamps D) None) (\<lambda>u.
     and_then read_byte (\<lambda>lamps.
     and_then (\<lambda>st. (Inr (), st\<lparr>number_of_lamps := Some (uint lamps)\<rparr>)) (\<lambda>u.
     and_then (send_byte (InfoGetNumberOfSolenoids D) None) (\<lambda>u.
     and_then read_byte (\<lambda>solenoids.
     and_then (\<lambda>st. (Inr (), st\<lparr>number_of_solenoids := Some (uint solenoids)\<rparr>)) (\<lambda>u.
     and_then (send_byte (InfoGetNumberOfDisplays D) None) (\<lambda>u.
     and_then read_byte (\<lambda>displays st.
       (Inr (), st\<lparr>number_of_displays := Some (uint displays)\<rparr>)))))))))"

text \<open>
  Lines 163 to 172: initially read all switches. \<open>switch_numbers\<close> is the sequence of
  \<^verbatim>\<open>number = row * 10 + col\<close> that the two nested \<^verbatim>\<open>for ... in range(8)\<close> loops run through;
  \<open>read_switch\<close> is the loop body and \<open>read_switches\<close> the loop, left by the first raise.
\<close>

definition switch_numbers :: "nat list" where
  "switch_numbers = concat (map (\<lambda>row. map (\<lambda>col. row * 10 + col) [0..<8]) [0..<8])"

definition read_switch :: "LisyDefines \<Rightarrow> nat \<Rightarrow> platform \<Rightarrow> unit result" where
  "read_switch D num st =
     (case py_bytes [int num] of
        Inl e \<Rightarrow> (Inl e, st)
      | Inr bs \<Rightarrow>
          and_then (send_byte (SwitchesGetStatusOfSwitch D) (Some bs)) (\<lambda>u.
          and_then read_byte (\<lambda>state st'.
            if 1 < state then (Inl (AssertionError invalid_switch_message), st')
            else (Inr (),
                  st'\<lparr>inputs := AList.update (py_str (int num)) (state = 1) (inputs st')\<rparr>))) st)"

fun read_switches :: "LisyDefines \<Rightarrow> nat list \<Rightarrow> platform \<Rightarrow> unit result" where
  "read_switches D [] st = (Inr (), st)"
| "read_switches D (num # nums) st =
     (case read_switch D num st of
        (Inl e, st') \<Rightarrow> (Inl e, st')
      | (Inr u, st') \<Rightarrow> read_switches D nums st')"

text \<open>
  The write that queries switch \<open>n\<close>, and the cache after the answer \<open>r\<close> for switch \<open>n\<close>
  has been stored: the two effects of one pass through the body of the switch loop.
\<close>

definition switch_query :: "LisyDefines \<Rightarrow> nat \<Rightarrow> byte list" where
  "switch_query D n = [SwitchesGetStatusOfSwitch D, of_nat n]"

definition store_switch :: "nat \<times> byte \<Rightarrow> (string \<times> bool) list \<Rightarrow> (string \<times> bool) list" where
  "store_switch nr = AList.update (py_str (int (fst nr))) (snd nr = 1)"

text \<open>Lines 174 and 175: the poll task is created.\<close>

definition create_poll_task :: "platform \<Rightarrow> unit result" where
  "create_poll_task st = (Inr (), st\<lparr>poll_task := True\<rparr>)"

definition initialize :: "LisyDefines \<Rightarrow> byte list \<Rightarrow> platform \<Rightarrow> unit result" where
  "initialize D incoming =
     and_then (connect incoming) (\<lambda>u.
     and_then (reset_platform D) (\<lambda>u.
     and_then (get_type D) (\<lambda>u.
     and_then (get_numbers D) (\<lambda>u.
     and_then (read_switches D switch_numbers) (\<lambda>u.
     create_poll_task)))))"

subsection \<open>The poll loop\<close>

text \<open>One pass through the body of \<^verbatim>\<open>while True\<close> in \<^verbatim>\<open>_poll\<close>.\<close>

definition poll_cycle :: "LisyDefines \<Rightarrow> platform \<Rightarrow> unit result" where
  "poll_cycle D =
     and_then (send_byte (SwitchesGetChangedSwitches D) None) (\<lambda>u.
     and_then read_byte (\<lambda>status st.
       if status = 127 then (Inr (), st\<lparr>sleeps := Suc (sleeps st)\<rparr>)
       else
         (let switch_state = (if status AND 0x80 \<noteq> 0 then 1 else 0 :: int);
              switch_num = status AND 0x7F
          in (Inr (),
              st\<lparr>switch_events :=
                     switch_events st @ [(py_str (uint switch_num), switch_state, Self)],
                 inputs :=
                     AList.update (py_str (uint switch_num)) (switch_state \<noteq> 0) (inputs st)\<rparr>))))"

text \<open>
  The loop itself. Every pass that does not raise takes one byte from the reader, so on a
  stream that ends the loop ends too, with the exception that left it.
\<close>

function poll :: "LisyDefines \<Rightarrow> platform \<Rightarrow> error \<times> platform" where
  "poll D st =
     (case poll_cycle D st of
        (Inl e, st') \<Rightarrow> (e, st')
      | (Inr u, st') \<Rightarrow> poll D st')"
  by pat_completeness auto
termination
  apply (relation "measure (\<lambda>(D, st). case reader st of None \<Rightarrow> 0 | Some bs \<Rightarrow> length bs)")
   apply simp
  apply (auto simp: poll_cycle_def and_then_def send_byte_def writer_write_def read_byte_def
                   Let_def
             split: option.splits list.splits if_splits)
  done

declare poll.simps [simp del]

subsection \<open>Configuring lights and segment displays\<close>

datatype LisyLight = LisyLight int

datatype LisyDisplay = LisyDisplay int

definition lamps_message_zero_indexed :: string where
  "lamps_message_zero_indexed = ''LISY only has {} lamps. Cannot configure lamp {} (zero indexed).''"

definition lamps_message_one_indexed :: string where
  "lamps_message_one_indexed = ''LISY only has {} lamps. Cannot configure lamp {} (one indexed).''"

definition invalid_display_message :: string where
  "invalid_display_message =
     ''Invalid display number {}. Hardware only supports {} displays (indexed with 0)''"

text \<open>
  \<^verbatim>\<open>configure_light\<close> deletes its arguments \<^verbatim>\<open>subtype\<close> and \<^verbatim>\<open>platform_settings\<close> on entry;
  they are left out here.
  A chained comparison \<^verbatim>\<open>a < n >= m\<close> is \<^verbatim>\<open>a < n and n >= m\<close>: the right half is looked at
  only when the left half holds, and comparing with \<^verbatim>\<open>None\<close> (no handshake yet) raises
  \<^verbatim>\<open>TypeError\<close>.
\<close>

definition configure_light :: "int_parser \<Rightarrow> string \<Rightarrow> platform \<Rightarrow> LisyLight result" where
  "configure_light py_int num st =
     (case py_int num of
        None \<Rightarrow> (Inl ValueError, st)
      | Some n \<Rightarrow>
          if system_type st = Some 80 then
            (if 0 < n then
               (case number_of_lamps st of
                  None \<Rightarrow> (Inl TypeError, st)
                | Some lamps \<Rightarrow>
                    if n \<ge> lamps then (Inl (AssertionError lamps_message_zero_indexed), st)
                    else (Inr (LisyLight n), st))
             else (Inr (LisyLight n), st))
          else
            (if 1 < n then
               (case number_of_lamps st of
                  None \<Rightarrow> (Inl TypeError, st)
                | Some lamps \<Rightarrow>
                    if n > lamps then (Inl (AssertionError lamps_message_one_indexed), st)
                    else (Inr (LisyLight n), st))
             else (Inr (LisyLight n), st)))"

definition configure_segment_display ::
  "int_parser \<Rightarrow> string \<Rightarrow> platform \<Rightarrow> LisyDisplay result" where
  "configure_segment_display py_int num st =
     (case py_int num of
        None \<Rightarrow> (Inl ValueError, st)
      | Some n \<Rightarrow>
          if 0 < n then
            (case number_of_displays st of
               None \<Rightarrow> (Inl TypeError, st)
             | Some displays \<Rightarrow>
                 if n \<ge> displays then (Inl (AssertionError invalid_display_message), st)
                 else (Inr (LisyDisplay n), st))
          else (Inr (LisyDisplay n), st))"

subsection \<open>The column of a cache key\<close>

text \<open>
  The keys of the cache are decimal strings of switch numbers \<open>row * 10 + col\<close>. The
  column such a key stands for is its last digit; \<open>columns_valid\<close> says that every key
  of the cache has a column from 0 to 7.
\<close>

definition key_column :: "string \<Rightarrow> nat" where
  "key_column k = of_char (last k) - 48"

definition columns_valid :: "platform \<Rightarrow> bool" where
  "columns_valid st = (\<forall>k\<in>fst ` set (inputs st). key_column k \<le> 7)"

subsection \<open>Sample parameters\<close>

text \<open>
  A table of command codes and a reader of plain decimal numerals (digits, with an
  optional minus sign in front), on which \<^verbatim>\<open>int\<close> gives the number they denote. They
  instantiate the parameters \<open>D\<close> and \<open>py_int\<close> in the worked examples below.
\<close>

definition example_defines :: LisyDefines where
  "example_defines =
     \<lparr>GeneralReset = 100, InfoGetConnectedLisyHardware = 0, InfoGetNumberOfLamps = 3,
      InfoGetNumberOfSolenoids = 4, InfoGetNumberOfDisplays = 6,
      SwitchesGetStatusOfSwitch = 40, SwitchesGetChangedSwitches = 41,
      SolenoidsSetSolenoidPulseTime = 24, SolenoidsPulseSolenioid = 23,
      SolenoidsSetSolenoidToOn = 21, SolenoidsSetSolenoidToOff = 22\<rparr>"

definition nat_of_digits :: "string \<Rightarrow> nat option" where
  "nat_of_digits s =
     (if s \<noteq> [] \<and> list_all (\<lambda>c. (48::nat) \<le> of_char c \<and> (of_char c :: nat) \<le> 57) s
      then Some (foldl (\<lambda>a c. 10 * a + (of_char c - 48)) 0 s) else None)"

definition decimal_int :: int_parser where
  "decimal_int s =
     (case s of
        CHR ''-'' # ds \<Rightarrow> map_option (\<lambda>n. - int n) (nat_of_digits ds)
      | _ \<Rightarrow> map_option int (nat_of_digits s))"

section \<open>Properties\<close>

subsection \<open>Auxiliary facts\<close>

lemma digit_char_values:
  "digit_char 0 = CHR ''0''" "digit_char 1 = CHR ''1''" "digit_char 2 = CHR ''2''"
  "digit_char 3 = CHR ''3''" "digit_char 4 = CHR ''4''" "digit_char 5 = CHR ''5''"
  "digit_char 6 = CHR ''6''" "digit_char 7 = CHR ''7''" "digit_char 8 = CHR ''8''"
  "digit_char 9 = CHR ''9''"
  by code_simp+

lemma bit7_set: "((b::byte) AND 0x80 \<noteq> 0) = bit b 7"
  using and_exp_eq_0_iff_not_bit [of b 7] by simp

lemma bit7_shift: "(drop_bit 7 (b::byte) AND 1) = (if bit b 7 then 1 else 0)"
  by (simp add: and_one_eq mod_2_eq_odd bit_iff_odd_drop_bit)

subsection \<open>Reconfiguring the pulse time\<close>

lemma configure_pulse_ms_returns:
  assumes "configure_pulse_ms py_int D d (drv, st) = (Inr u, drv', st')"
    and "py_int (number drv) = Some n" and "writer st = Some w"
  shows "drv' = drv\<lparr>pulse_ms := d\<rparr> \<and>
         writer st' = Some (w @ (if d \<noteq> pulse_ms drv
           then [[SolenoidsSetSolenoidPulseTime D, word_of_int n, word_of_int (int_div_256 d),
                  word_of_int (d mod 256)]] else []))"
  using assms
  by (auto simp: configure_pulse_ms_def Let_def py_bytes_def send_byte_def writer_write_def
           split: if_splits sum.splits)

lemma send_number_returns:
  assumes "send_number py_int cmd (drv, st) = (Inr u, drv', st')"
    and "py_int (number drv) = Some n" and "writer st = Some w"
  shows "drv' = drv \<and> writer st' = Some (w @ [[cmd, word_of_int n]])"
  using assms
  by (auto simp: send_number_def number_bytes_def py_bytes_def send_byte_def writer_write_def
           split: if_splits sum.splits)

lemma run_call_returns:
  assumes "run_call py_int D c (drv, st) = (Inr u, drv', st')"
    and "py_int (number drv) = Some n" and "writer st = Some w"
  shows "drv' = drv\<lparr>pulse_ms := duration (call_settings c)\<rparr> \<and>
         writer st' = Some (w @ spec_writes D (word_of_int n) (pulse_ms drv) [c])"
proof -
  obtain ps cmd where c: "call_settings c = ps" "call_command D c = cmd" by simp
  from assms(1) obtain drv1 st1 where
    conf: "configure_pulse_ms py_int D (duration ps) (drv, st) = (Inr (), drv1, st1)" and
    send: "send_number py_int cmd (drv1, st1) = (Inr u, drv', st')"
    using c by (cases c) (auto simp: pulse_def enable_def split: prod.splits sum.splits)
  from configure_pulse_ms_returns [OF conf assms(2,3)]
  have 1: "drv1 = drv\<lparr>pulse_ms := duration ps\<rparr>" and
    2: "writer st1 = Some (w @ (if duration ps \<noteq> pulse_ms drv
           then [[SolenoidsSetSolenoidPulseTime D, word_of_int n,
                  word_of_int (int_div_256 (duration ps)), word_of_int (duration ps mod 256)]]
           else []))" by simp_all
  have "py_int (number drv1) = Some n" using 1 assms(2) by simp
  from send_number_returns [OF send this 2] show ?thesis
    using 1 c by (simp add: Let_def)
qed

lemma spec_writes_append_step:
  "spec_writes D n stored (c # cs) =
     spec_writes D n stored [c] @ spec_writes D n (duration (call_settings c)) cs"
  by (simp add: Let_def)

lemma byte_of_int: "0 \<le> x \<Longrightarrow> x < 256 \<Longrightarrow> uint (word_of_int x :: byte) = x"
  by (simp add: uint_word_of_int take_bit_int_eq_self)

text \<open>
  Calls with durations from 0 to 65535 on a driver whose number is a byte, on a connected
  platform, all return.
\<close>

lemma run_call_in_range:
  assumes "py_int (number drv) = Some n" and "0 \<le> n" and "n < 256"
    and "writer st = Some w"
    and "0 \<le> duration (call_settings c)" and "duration (call_settings c) < 65536"
  shows "\<exists>st'. run_call py_int D c (drv, st) =
           (Inr (), drv\<lparr>pulse_ms := duration (call_settings c)\<rparr>, st') \<and>
         (\<exists>w'. writer st' = Some w')"
proof -
  have "0 \<le> duration (call_settings c) div 256" "duration (call_settings c) div 256 < 256"
    using assms(5,6) by auto
  then show ?thesis
    using assms
    by (cases c)
       (auto simp: pulse_def enable_def configure_pulse_ms_def send_number_def number_bytes_def
          py_bytes_def send_byte_def writer_write_def int_div_256_def Let_def)
qed

lemma run_calls_in_range:
  assumes "py_int (number drv) = Some n" and "0 \<le> n" and "n < 256"
    and "writer st = Some w"
    and "\<forall>c\<in>set cs. 0 \<le> duration (call_settings c) \<and> duration (call_settings c) < 65536"
  shows "\<exists>drv' st'. run_calls py_int D cs (drv, st) = (Inr (), drv', st')"
  using assms
proof (induction cs arbitrary: drv st w)
  case Nil
  then show ?case by simp
next
  case (Cons c cs)
  from run_call_in_range [of py_int drv n st w c D] Cons.prems
  obtain st1 w1 where
    step: "run_call py_int D c (drv, st) = (Inr (), drv\<lparr>pulse_ms := duration (call_settings c)\<rparr>, st1)"
    and w1: "writer st1 = Some w1"
    by auto
  have "\<exists>drv' st'. run_calls py_int D cs (drv\<lparr>pulse_ms := duration (call_settings c)\<rparr>, st1) =
      (Inr (), drv', st')"
    by (rule Cons.IH [where w = w1]) (use Cons.prems w1 in auto)
  with step show ?case by simp
qed

lemma run_calls_writes:
  assumes "run_calls py_int D cs (drv, st) = (Inr (), drv', st')"
    and "py_int (number drv) = Some n" and "writer st = Some w"
  shows "writer st' = Some (w @ spec_writes D (word_of_int n) (pulse_ms drv) cs) \<and>
         pulse_ms drv' = spec_stored (pulse_ms drv) cs"
  using assms
proof (induction cs arbitrary: drv st w)
  case Nil
  then show ?case by simp
next
  case (Cons c cs)
  from Cons.prems(1) obtain drv1 st1 where
    step: "run_call py_int D c (drv, st) = (Inr (), drv1, st1)" and
    rest: "run_calls py_int D cs (drv1, st1) = (Inr (), drv', st')"
    by (auto split: prod.splits sum.splits)
  from run_call_returns [OF step Cons.prems(2,3)]
  have d1: "drv1 = drv\<lparr>pulse_ms := duration (call_settings c)\<rparr>" and
    w1: "writer st1 = Some (w @ spec_writes D (word_of_int n) (pulse_ms drv) [c])"
    by simp_all
  have n1: "py_int (number drv1) = Some n" using d1 Cons.prems(2) by simp
  from Cons.IH [OF rest n1 w1] show ?case
    using d1 by (simp add: Let_def)
qed

text \<open>
  Claim C1, amended. Take any sequence of \<^verbatim>\<open>pulse\<close> and \<^verbatim>\<open>enable\<close> calls on one driver that
  all return normally. The writes they add to the transport are those of \<open>spec_writes\<close>:
  the command of each call, with a "set pulse time" command in front of it if and only
  if the requested duration differs from the stored one, so a repeated duration sends no
  reconfiguration; and the stored duration ends as the one requested last. On a handle
  as \<^verbatim>\<open>configure_driver\<close> creates it the stored duration the first call is compared with
  is \<open>- 1\<close>.
\<close>

theorem run_calls_reconfigures_on_change:
  assumes "run_calls py_int D cs (drv, st) = (Inr (), drv', st')"
    and "py_int (number drv) = Some n" and "writer st = Some w"
  shows "writer st' = Some (w @ spec_writes D (word_of_int n) (pulse_ms drv) cs) \<and>
         pulse_ms drv' = spec_stored (pulse_ms drv) cs \<and>
         (drv = configure_driver num \<longrightarrow>
            writer st' = Some (w @ spec_writes D (word_of_int n) (- 1) cs) \<and>
            pulse_ms drv' = spec_stored (- 1) cs)"
proof -
  note general = run_calls_writes [OF assms]
  have "pulse_ms drv = - 1" if "drv = configure_driver num"
    using that by (simp add: configure_driver_def)
  with general show ?thesis by simp
qed

text \<open>
  Four calls on a new handle for solenoid 3: pulse 1000, pulse 1000, enable 20, pulse 20.
  The pulse time is set twice, before the first and before the third call.
\<close>

theorem run_calls_reconfigures_on_change_witness:
  "run_calls decimal_int example_defines
     [Pulse \<lparr>duration = 1000\<rparr>, Pulse \<lparr>duration = 1000\<rparr>, Enable \<lparr>duration = 20\<rparr>,
      Pulse \<lparr>duration = 20\<rparr>]
     (configure_driver ''3'', init_platform\<lparr>writer := Some []\<rparr>) =
     (Inr (), \<lparr>number = ''3'', pulse_ms = 20\<rparr>,
      init_platform\<lparr>writer := Some [[24, 3, 3, 232], [23, 3], [23, 3], [24, 3, 0, 20], [21, 3],
                                     [23, 3]]\<rparr>) \<and>
   writer (init_platform\<lparr>writer := Some [[24, 3, 3, 232], [23, 3], [23, 3], [24, 3, 0, 20],
                                       [21, 3], [23, 3]]\<rparr>) =
     Some ([] @ spec_writes example_defines 3 (- 1)
       [Pulse \<lparr>duration = 1000\<rparr>, Pulse \<lparr>duration = 1000\<rparr>, Enable \<lparr>duration = 20\<rparr>,
        Pulse \<lparr>duration = 20\<rparr>]) \<and>
   spec_writes example_defines 3 (- 1)
     [Pulse \<lparr>duration = 1000\<rparr>, Pulse \<lparr>duration = 1000\<rparr>, Enable \<lparr>duration = 20\<rparr>,
      Pulse \<lparr>duration = 20\<rparr>] =
     [[24, 3, 3, 232], [23, 3], [23, 3], [24, 3, 0, 20], [21, 3], [23, 3]]"
proof -
  have n: "decimal_int (number (configure_driver ''3'')) = Some 3"
    by (simp add: configure_driver_def decimal_int_def nat_of_digits_def)
  have w: "writer (init_platform\<lparr>writer := Some []\<rparr>) = Some []"
    by simp
  have run: "run_calls decimal_int example_defines
     [Pulse \<lparr>duration = 1000\<rparr>, Pulse \<lparr>duration = 1000\<rparr>, Enable \<lparr>duration = 20\<rparr>,
      Pulse \<lparr>duration = 20\<rparr>]
     (configure_driver ''3'', init_platform\<lparr>writer := Some []\<rparr>) =
     (Inr (), \<lparr>number = ''3'', pulse_ms = 20\<rparr>,
      init_platform\<lparr>writer := Some [[24, 3, 3, 232], [23, 3], [23, 3], [24, 3, 0, 20], [21, 3],
                                     [23, 3]]\<rparr>)"
    by (simp add: pulse_def enable_def configure_pulse_ms_def send_number_def number_bytes_def
          py_bytes_def send_byte_def writer_write_def int_div_256_def configure_driver_def
          decimal_int_def nat_of_digits_def example_defines_def init_platform_def Let_def)
  have spec: "spec_writes example_defines 3 (- 1)
     [Pulse \<lparr>duration = 1000\<rparr>, Pulse \<lparr>duration = 1000\<rparr>, Enable \<lparr>duration = 20\<rparr>,
      Pulse \<lparr>duration = 20\<rparr>] =
     [[24, 3, 3, 232], [23, 3], [23, 3], [24, 3, 0, 20], [21, 3], [23, 3]]"
    by (simp add: int_div_256_def example_defines_def Let_def)
  from run_calls_reconfigures_on_change [OF run n w, of "''3''"] have
    "writer (init_platform\<lparr>writer := Some [[24, 3, 3, 232], [23, 3], [23, 3], [24, 3, 0, 20],
                                       [21, 3], [23, 3]]\<rparr>) =
     Some ([] @ spec_writes example_defines (word_of_int 3) (- 1)
       [Pulse \<lparr>duration = 1000\<rparr>, Pulse \<lparr>duration = 1000\<rparr>, Enable \<lparr>duration = 20\<rparr>,
        Pulse \<lparr>duration = 20\<rparr>])"
    by blast
  with run spec show ?thesis by simp
qed

text \<open>
  The claim as stated, for every sequence of calls, fails at a call that raises. On a new
  handle for solenoid 3 on a connected platform \<^verbatim>\<open>pulse\<close> with the duration 65536, which
  \<open>max_pulse\<close> admits, finds the duration different from the stored \<open>- 1\<close> and stores it,
  but \<^verbatim>\<open>bytes\<close> raises and no "set pulse time" command is written, where \<open>spec_writes\<close>
  has one.
\<close>

theorem run_calls_reconfigures_on_change_counterexample:
  "max_pulse = 65536 \<and>
   pulse_ms (configure_driver ''3'') = - 1 \<and>
   run_calls decimal_int example_defines [Pulse \<lparr>duration = 65536\<rparr>]
     (configure_driver ''3'', init_platform\<lparr>writer := Some []\<rparr>) =
     (Inl ValueError, \<lparr>number = ''3'', pulse_ms = 65536\<rparr>, init_platform\<lparr>writer := Some []\<rparr>) \<and>
   spec_writes example_defines 3 (- 1) [Pulse \<lparr>duration = 65536\<rparr>] \<noteq> []"
  by (simp add: max_pulse_def pulse_def configure_pulse_ms_def py_bytes_def int_div_256_def
        configure_driver_def decimal_int_def nat_of_digits_def example_defines_def
        init_platform_def Let_def)

text \<open>
  Claim C2, amended. For a duration \<open>d\<close> with \<open>0 \<le> d \<le> 65535\<close> that differs from the
  stored one, on a connected platform and a driver whose number is a byte, the "set
  pulse time" command is written with the payload bytes \<open>d div 256\<close> and \<open>d mod 256\<close>
  after the number, and high * 256 + low gives \<open>d\<close> back.
\<close>

theorem pulse_time_payload:
  assumes "0 \<le> d" and "d < 65536" and "d \<noteq> pulse_ms drv"
    and "py_int (number drv) = Some n" and "0 \<le> n" and "n < 256"
    and "writer st = Some w"
  shows "configure_pulse_ms py_int D d (drv, st) =
           (Inr (), drv\<lparr>pulse_ms := d\<rparr>,
            st\<lparr>writer := Some (w @ [[SolenoidsSetSolenoidPulseTime D, word_of_int n,
                                       word_of_int (d div 256), word_of_int (d mod 256)]])\<rparr>) \<and>
         uint (word_of_int (d div 256) :: byte) = d div 256 \<and>
         uint (word_of_int (d mod 256) :: byte) = d mod 256 \<and>
         uint (word_of_int (d div 256) :: byte) * 256 + uint (word_of_int (d mod 256) :: byte) = d"
proof -
  have hi: "0 \<le> d div 256" "d div 256 < 256" using assms(1,2) by auto
  have lo: "0 \<le> d mod 256" "d mod 256 < 256" by auto
  have conf: "configure_pulse_ms py_int D d (drv, st) =
           (Inr (), drv\<lparr>pulse_ms := d\<rparr>,
            st\<lparr>writer := Some (w @ [[SolenoidsSetSolenoidPulseTime D, word_of_int n,
                                       word_of_int (d div 256), word_of_int (d mod 256)]])\<rparr>)"
    using assms hi
    by (simp add: configure_pulse_ms_def Let_def py_bytes_def int_div_256_def send_byte_def
          writer_write_def)
  show ?thesis
    using conf byte_of_int [OF hi] byte_of_int [OF lo] by simp
qed

text \<open>The duration 1000 is sent as the bytes 3 and 232.\<close>

theorem pulse_time_payload_witness:
  "configure_pulse_ms decimal_int example_defines 1000
     (configure_driver ''3'', init_platform\<lparr>writer := Some []\<rparr>) =
     (Inr (), \<lparr>number = ''3'', pulse_ms = 1000\<rparr>,
      init_platform\<lparr>writer := Some [[24, 3, 3, 232]]\<rparr>) \<and>
   uint (3 :: byte) * 256 + uint (232 :: byte) = 1000"
proof -
  have n: "decimal_int (number (configure_driver ''3'')) = Some 3"
    by (simp add: configure_driver_def decimal_int_def nat_of_digits_def)
  have w: "writer (init_platform\<lparr>writer := Some []\<rparr>) = Some []"
    by simp
  have d: "(1000::int) \<noteq> pulse_ms (configure_driver ''3'')"
    by (simp add: configure_driver_def)
  have lo: "(0::int) \<le> 1000" and hi: "(1000::int) < 65536"
    and n0: "(0::int) \<le> 3" and n1: "(3::int) < 256"
    by simp_all
  from pulse_time_payload [where py_int = decimal_int and D = example_defines,
      OF lo hi d n n0 n1 w] show ?thesis
    by (simp add: configure_driver_def example_defines_def)
qed

text \<open>
  The claim as stated, for every duration, fails at both ends. The duration 65536, which
  \<open>max_pulse\<close> admits, has no payload at all: \<^verbatim>\<open>bytes\<close> raises and nothing is written. The
  duration \<open>- 5\<close> is written as the bytes 0 and 251, not as \<open>(- 5) div 256 = - 1\<close> and
  \<open>251\<close>, and 0 * 256 + 251 is not \<open>- 5\<close>.
\<close>

theorem pulse_time_payload_counterexample:
  "max_pulse = 65536 \<and>
   configure_pulse_ms decimal_int example_defines 65536
     (configure_driver ''3'', init_platform\<lparr>writer := Some []\<rparr>) =
     (Inl ValueError, \<lparr>number = ''3'', pulse_ms = 65536\<rparr>, init_platform\<lparr>writer := Some []\<rparr>) \<and>
   configure_pulse_ms decimal_int example_defines (- 5)
     (configure_driver ''3'', init_platform\<lparr>writer := Some []\<rparr>) =
     (Inr (), \<lparr>number = ''3'', pulse_ms = - 5\<rparr>,
      init_platform\<lparr>writer := Some [[24, 3, 0, 251]]\<rparr>) \<and>
   [0, 251] \<noteq> [(- 5) div 256, (- 5) mod 256 :: int] \<and>
   uint (0 :: byte) * 256 + uint (251 :: byte) \<noteq> - 5"
  by (simp add: max_pulse_def configure_pulse_ms_def py_bytes_def send_byte_def writer_write_def
        int_div_256_def configure_driver_def decimal_int_def nat_of_digits_def
        example_defines_def init_platform_def Let_def)

text \<open>
  Claim C10. When \<^verbatim>\<open>_configure_pulse_ms\<close> raises, whatever the exception, the stored
  duration has already been changed to the requested one although nothing was written.
  From then on the same duration is taken as configured: \<^verbatim>\<open>_configure_pulse_ms\<close> with
  it returns at once in every state \<open>st2\<close> of the platform, and \<^verbatim>\<open>pulse\<close> with it does
  nothing but send the pulse command.
\<close>

theorem configure_pulse_ms_not_atomic:
  assumes "configure_pulse_ms py_int D d (drv, st) = (Inl e, drv', st')"
  shows "pulse_ms drv \<noteq> d \<and> pulse_ms drv' = d \<and> writer st' = writer st \<and>
         configure_pulse_ms py_int D d (drv', st2) = (Inr (), drv', st2) \<and>
         pulse py_int D \<lparr>duration = d\<rparr> (drv', st2) =
           send_number py_int (SolenoidsPulseSolenioid D) (drv', st2)"
proof -
  from assms have 1: "pulse_ms drv \<noteq> d" and 2: "drv' = drv\<lparr>pulse_ms := d\<rparr>"
    and 3: "writer st' = writer st"
    by (auto simp: configure_pulse_ms_def Let_def send_byte_def writer_write_def
             split: if_splits option.splits sum.splits)
  from 2 have 4: "configure_pulse_ms py_int D d (drv', st2) = (Inr (), drv', st2)"
    by (simp add: configure_pulse_ms_def)
  from 1 2 3 4 show ?thesis by (simp add: pulse_def)
qed

text \<open>
  On a platform that is not connected yet the write raises; the pulse after connecting
  sends the pulse command alone, and the controller never learns of the 10 ms.
\<close>

theorem configure_pulse_ms_not_atomic_witness:
  "configure_pulse_ms decimal_int example_defines 10 (configure_driver ''3'', init_platform) =
     (Inl AttributeError, \<lparr>number = ''3'', pulse_ms = 10\<rparr>, init_platform) \<and>
   pulse decimal_int example_defines \<lparr>duration = 10\<rparr>
     (\<lparr>number = ''3'', pulse_ms = 10\<rparr>, init_platform\<lparr>writer := Some []\<rparr>) =
     (Inr (), \<lparr>number = ''3'', pulse_ms = 10\<rparr>, init_platform\<lparr>writer := Some [[23, 3]]\<rparr>)"
proof -
  have fails: "configure_pulse_ms decimal_int example_defines 10
      (configure_driver ''3'', init_platform) =
     (Inl AttributeError, \<lparr>number = ''3'', pulse_ms = 10\<rparr>, init_platform)"
    by (simp add: configure_pulse_ms_def py_bytes_def send_byte_def writer_write_def
          int_div_256_def configure_driver_def decimal_int_def nat_of_digits_def
          init_platform_def Let_def)
  have "send_number decimal_int (SolenoidsPulseSolenioid example_defines)
      (\<lparr>number = ''3'', pulse_ms = 10\<rparr>, init_platform\<lparr>writer := Some []\<rparr>) =
     (Inr (), \<lparr>number = ''3'', pulse_ms = 10\<rparr>, init_platform\<lparr>writer := Some [[23, 3]]\<rparr>)"
    by (simp add: send_number_def number_bytes_def py_bytes_def send_byte_def writer_write_def
          decimal_int_def nat_of_digits_def example_defines_def init_platform_def)
  with configure_pulse_ms_not_atomic [OF fails, of "init_platform\<lparr>writer := Some []\<rparr>"] fails
  show ?thesis by simp
qed


subsection \<open>The handshake\<close>

lemma read_string_terminated:
  assumes "reader st = Some (s @ 0 # rest)" and "0 \<notin> set s"
  shows "read_string st = (Inr s, st\<lparr>reader := Some rest\<rparr>)"
proof -
  have "takeWhile (\<lambda>b. b \<noteq> 0) (s @ 0 # rest) = s"
    using assms(2) by (induction s) auto
  moreover have "dropWhile (\<lambda>b. b \<noteq> 0) (s @ 0 # rest) = 0 # rest"
    using assms(2) by (induction s) auto
  ultimately show ?thesis
    using assms(1) by (simp add: read_string_def)
qed

lemma handshake_until_type:
  assumes "0 \<notin> set s"
  shows "and_then (connect (0 # s @ 0 # rest)) (\<lambda>u. and_then (reset_platform D) (\<lambda>u. get_type D)) st =
    (if s = bytes_literal ''LISY1'' then
       (Inr (), st\<lparr>reader := Some rest,
                   writer := Some [[GeneralReset D], [InfoGetConnectedLisyHardware D]],
                   system_type := Some 1\<rparr>)
     else if s = bytes_literal ''LISY80'' then
       (Inr (), st\<lparr>reader := Some rest,
                   writer := Some [[GeneralReset D], [InfoGetConnectedLisyHardware D]],
                   system_type := Some 80\<rparr>)
     else (Inl (AssertionError invalid_version_message),
           st\<lparr>reader := Some rest,
              writer := Some [[GeneralReset D], [InfoGetConnectedLisyHardware D]]\<rparr>))"
proof -
  let ?st1 = "st\<lparr>reader := Some (s @ 0 # rest), writer := Some [[GeneralReset D]]\<rparr>"
  have 1: "and_then (connect (0 # s @ 0 # rest)) (\<lambda>u. reset_platform D) st = (Inr (), ?st1)"
    by (simp add: and_then_def connect_def reset_platform_def send_byte_def writer_write_def
          read_byte_def)
  let ?st2 = "st\<lparr>reader := Some (s @ 0 # rest),
       writer := Some [[GeneralReset D], [InfoGetConnectedLisyHardware D]]\<rparr>"
  have "read_string ?st2 = (Inr s, ?st2\<lparr>reader := Some rest\<rparr>)"
    by (rule read_string_terminated) (simp_all add: assms)
  then have 2: "get_type D ?st1 =
    (if s = bytes_literal ''LISY1'' then
       (Inr (), st\<lparr>reader := Some rest,
                   writer := Some [[GeneralReset D], [InfoGetConnectedLisyHardware D]],
                   system_type := Some 1\<rparr>)
     else if s = bytes_literal ''LISY80'' then
       (Inr (), st\<lparr>reader := Some rest,
                   writer := Some [[GeneralReset D], [InfoGetConnectedLisyHardware D]],
                   system_type := Some 80\<rparr>)
     else (Inl (AssertionError invalid_version_message),
           st\<lparr>reader := Some rest,
              writer := Some [[GeneralReset D], [InfoGetConnectedLisyHardware D]]\<rparr>))"
    by (simp add: get_type_def and_then_def send_byte_def writer_write_def)
  have "and_then (connect (0 # s @ 0 # rest)) (\<lambda>u. and_then (reset_platform D) (\<lambda>u. get_type D)) st
      = (case and_then (connect (0 # s @ 0 # rest)) (\<lambda>u. reset_platform D) st of
           (Inl e, st') \<Rightarrow> (Inl e, st') | (Inr x, st') \<Rightarrow> get_type D st')"
    by (simp add: and_then_def split: prod.splits sum.splits)
  then show ?thesis using 1 2 by simp
qed


lemma and_then_assoc:
  "and_then (and_then m f) g = and_then m (\<lambda>x. and_then (f x) g)"
  by (rule ext) (simp add: and_then_def split: prod.splits sum.splits)

lemma and_then_returns: "m st = (Inr x, st') \<Longrightarrow> and_then m f st = f x st'"
  by (simp add: and_then_def)

lemma and_then_raises: "m st = (Inl e, st') \<Longrightarrow> and_then m f st = (Inl e, st')"
  by (simp add: and_then_def)

lemma get_numbers_reads:
  assumes "writer st = Some w" and "reader st = Some (l # so # d # rest)"
  shows "get_numbers D st =
    (Inr (), st\<lparr>writer := Some (w @ [[InfoGetNumberOfLamps D], [InfoGetNumberOfSolenoids D],
                                   [InfoGetNumberOfDisplays D]]),
                reader := Some rest,
                number_of_lamps := Some (uint l), number_of_solenoids := Some (uint so),
                number_of_displays := Some (uint d)\<rparr>)"
  using assms
  by (simp add: get_numbers_def and_then_def send_byte_def writer_write_def read_byte_def)

lemma read_switch_reads:
  assumes "writer st = Some w" and "reader st = Some (r # rest)" and "n < 256"
  shows "read_switch D n st =
    (if 1 < r then
       (Inl (AssertionError invalid_switch_message),
        st\<lparr>writer := Some (w @ [[SwitchesGetStatusOfSwitch D, of_nat n]]), reader := Some rest\<rparr>)
     else
       (Inr (), st\<lparr>writer := Some (w @ [[SwitchesGetStatusOfSwitch D, of_nat n]]),
                   reader := Some rest,
                   inputs := AList.update (py_str (int n)) (r = 1) (inputs st)\<rparr>))"
  using assms
  by (simp add: read_switch_def py_bytes_def and_then_def send_byte_def writer_write_def
        read_byte_def)

lemma read_switches_all_valid:
  assumes "writer st = Some w" and "reader st = Some (rs @ rest)"
    and "length rs = length nums" and "\<forall>r\<in>set rs. r \<le> 1" and "\<forall>n\<in>set nums. n < 256"
  shows "read_switches D nums st =
    (Inr (), st\<lparr>writer := Some (w @ map (switch_query D) nums), reader := Some rest,
                inputs := fold store_switch (zip nums rs) (inputs st)\<rparr>)"
  using assms
proof (induction nums arbitrary: st w rs)
  case Nil
  then show ?case by simp
next
  case (Cons n nums)
  from Cons.prems(3) obtain r rs' where rs: "rs = r # rs'" "length rs' = length nums"
    by (cases rs) auto
  let ?st1 = "st\<lparr>writer := Some (w @ [switch_query D n]), reader := Some (rs' @ rest),
                   inputs := store_switch (n, r) (inputs st)\<rparr>"
  have r: "\<not> 1 < r" using Cons.prems(4) rs by auto
  have step: "read_switch D n st = (Inr (), ?st1)"
    using read_switch_reads [of st w r "rs' @ rest" n D] Cons.prems rs r
    by (simp add: switch_query_def store_switch_def)
  have "read_switches D nums ?st1 =
    (Inr (), ?st1\<lparr>writer := Some ((w @ [switch_query D n]) @ map (switch_query D) nums),
                reader := Some rest,
                inputs := fold store_switch (zip nums rs') (inputs ?st1)\<rparr>)"
    by (rule Cons.IH) (use Cons.prems rs in auto)
  then show ?case using step rs by simp
qed

lemma read_switches_invalid:
  assumes "writer st = Some w" and "reader st = Some (rs @ rest)"
    and "length rs = length nums" and "\<exists>r\<in>set rs. 1 < r" and "\<forall>n\<in>set nums. n < 256"
  shows "fst (read_switches D nums st) = Inl (AssertionError invalid_switch_message) \<and>
         poll_task (snd (read_switches D nums st)) = poll_task st"
  using assms
proof (induction nums arbitrary: st w rs)
  case Nil
  then show ?case by simp
next
  case (Cons n nums)
  from Cons.prems(3) obtain r rs' where rs: "rs = r # rs'" "length rs' = length nums"
    by (cases rs) auto
  show ?case
  proof (cases "1 < r")
    case True
    then show ?thesis
      using read_switch_reads [of st w r "rs' @ rest" n D] Cons.prems rs by simp
  next
    case False
    let ?st1 = "st\<lparr>writer := Some (w @ [switch_query D n]), reader := Some (rs' @ rest),
                   inputs := store_switch (n, r) (inputs st)\<rparr>"
    have step: "read_switch D n st = (Inr (), ?st1)"
      using read_switch_reads [of st w r "rs' @ rest" n D] Cons.prems rs False
      by (simp add: switch_query_def store_switch_def)
    have "fst (read_switches D nums ?st1) = Inl (AssertionError invalid_switch_message) \<and>
         poll_task (snd (read_switches D nums ?st1)) = poll_task ?st1"
      by (rule Cons.IH [where w = "w @ [switch_query D n]" and rs = rs'])
         (use Cons.prems rs False in auto)
    then show ?thesis using step by simp
  qed
qed

lemma fold_store_switch_fresh:
  assumes "distinct (map fst cache @ map (\<lambda>nr. py_str (int (fst nr))) nrs)"
  shows "fold store_switch nrs cache = cache @ map (\<lambda>nr. (py_str (int (fst nr)), snd nr = 1)) nrs"
  using assms
proof (induction nrs arbitrary: cache)
  case Nil
  then show ?case by simp
next
  case (Cons nr nrs)
  have fresh: "py_str (int (fst nr)) \<notin> fst ` set cache" using Cons.prems by auto
  then have 1: "store_switch nr cache = cache @ [(py_str (int (fst nr)), snd nr = 1)]"
    by (induction cache) (auto simp: store_switch_def)
  have "fold store_switch nrs (store_switch nr cache) =
     store_switch nr cache @ map (\<lambda>nr. (py_str (int (fst nr)), snd nr = 1)) nrs"
    by (rule Cons.IH) (use Cons.prems 1 in auto)
  then show ?case using 1 by simp
qed

lemma switch_numbers_enum:
  "switch_numbers =
     [0, 1, 2, 3, 4, 5, 6, 7, 10, 11, 12, 13, 14, 15, 16, 17, 20, 21, 22, 23, 24, 25, 26, 27,
      30, 31, 32, 33, 34, 35, 36, 37, 40, 41, 42, 43, 44, 45, 46, 47, 50, 51, 52, 53, 54, 55,
      56, 57, 60, 61, 62, 63, 64, 65, 66, 67, 70, 71, 72, 73, 74, 75, 76, 77]"
  by code_simp

lemma switch_keys_enum:
  "map (\<lambda>n. py_str (int n)) switch_numbers =
     [''0'', ''1'', ''2'', ''3'', ''4'', ''5'', ''6'', ''7'', ''10'', ''11'', ''12'',
      ''13'', ''14'', ''15'', ''16'', ''17'', ''20'', ''21'', ''22'', ''23'', ''24'',
      ''25'', ''26'', ''27'', ''30'', ''31'', ''32'', ''33'', ''34'', ''35'', ''36'',
      ''37'', ''40'', ''41'', ''42'', ''43'', ''44'', ''45'', ''46'', ''47'', ''50'',
      ''51'', ''52'', ''53'', ''54'', ''55'', ''56'', ''57'', ''60'', ''61'', ''62'',
      ''63'', ''64'', ''65'', ''66'', ''67'', ''70'', ''71'', ''72'', ''73'', ''74'',
      ''75'', ''76'', ''77'']"
  by code_simp

lemma switch_keys_distinct: "distinct (map (\<lambda>n. py_str (int n)) switch_numbers)"
  unfolding switch_keys_enum by simp


lemma and_then_keeps:
  assumes "\<And>st. f (snd (m st)) = f st" and "\<And>x st. f (snd (g x st)) = f st"
  shows "f (snd (and_then m g st)) = f st"
proof (cases "m st")
  case (Pair r st')
  with assms(1) [of st] have "f st' = f st" by simp
  with Pair assms(2) show ?thesis by (cases r) (simp_all add: and_then_def)
qed

lemma send_byte_keeps_system_type: "system_type (snd (send_byte cmd byte st)) = system_type st"
  by (simp add: send_byte_def writer_write_def split: option.splits)

lemma read_byte_keeps_system_type: "system_type (snd (read_byte st)) = system_type st"
  by (simp add: read_byte_def split: option.splits list.splits)

lemma get_numbers_keeps_system_type: "system_type (snd (get_numbers D st)) = system_type st"
  unfolding get_numbers_def
  by (intro and_then_keeps send_byte_keeps_system_type read_byte_keeps_system_type) simp_all

lemma read_switch_keeps_system_type: "system_type (snd (read_switch D n st)) = system_type st"
proof (cases "py_bytes [int n]")
  case (Inl e)
  then show ?thesis by (simp add: read_switch_def)
next
  case (Inr bs)
  have "system_type (snd (and_then (send_byte (SwitchesGetStatusOfSwitch D) (Some bs)) (\<lambda>u.
          and_then read_byte (\<lambda>state st'.
            if 1 < state then (Inl (AssertionError invalid_switch_message), st')
            else (Inr (),
                  st'\<lparr>inputs := AList.update (py_str (int n)) (state = 1) (inputs st')\<rparr>))) st))
        = system_type st"
    by (intro and_then_keeps send_byte_keeps_system_type read_byte_keeps_system_type) simp_all
  with Inr show ?thesis by (simp add: read_switch_def)
qed

lemma read_switches_keeps_system_type:
  "system_type (snd (read_switches D nums st)) = system_type st"
proof (induction nums arbitrary: st)
  case Nil
  then show ?case by simp
next
  case (Cons n nums)
  obtain r st' where step: "read_switch D n st = (r, st')" by (cases "read_switch D n st")
  with read_switch_keeps_system_type [of D n st] have "system_type st' = system_type st"
    by simp
  with step Cons.IH [of st'] show ?case by (cases r) simp_all
qed

lemma after_type_keeps_system_type:
  "system_type (snd (and_then (get_numbers D) (\<lambda>u.
      and_then (read_switches D switch_numbers) (\<lambda>u. create_poll_task)) st)) = system_type st"
  by (intro and_then_keeps get_numbers_keeps_system_type read_switches_keeps_system_type)
     (simp add: create_poll_task_def)

lemma initialize_split:
  "initialize D incoming =
     and_then (and_then (connect incoming) (\<lambda>u. and_then (reset_platform D) (\<lambda>u. get_type D)))
       (\<lambda>u. and_then (get_numbers D) (\<lambda>u.
          and_then (read_switches D switch_numbers) (\<lambda>u. create_poll_task)))"
  by (simp add: initialize_def and_then_assoc)

text \<open>
  Claim C3. Let the controller answer the reset with 0 and the identify command with the
  string \<open>s\<close> (bytes without a zero, then the terminating zero). If \<open>s\<close> is "LISY1"
  the system type becomes 1, if it is "LISY80" it becomes 80, whatever happens in the
  rest of the handshake. For any other \<open>s\<close> \<^verbatim>\<open>initialize\<close> raises at that point: only the
  reset and the identify command have been written, no capacity is stored, the switches
  are not read and the poll task is not created.
\<close>

theorem identify_sets_system_type:
  assumes "0 \<notin> set s"
  shows "(s = bytes_literal ''LISY1'' \<longrightarrow>
            system_type (snd (initialize D (0 # s @ 0 # rest) st)) = Some 1) \<and>
         (s = bytes_literal ''LISY80'' \<longrightarrow>
            system_type (snd (initialize D (0 # s @ 0 # rest) st)) = Some 80) \<and>
         (s \<noteq> bytes_literal ''LISY1'' \<and> s \<noteq> bytes_literal ''LISY80'' \<longrightarrow>
            initialize D (0 # s @ 0 # rest) st =
              (Inl (AssertionError invalid_version_message),
               st\<lparr>reader := Some rest,
                  writer := Some [[GeneralReset D], [InfoGetConnectedLisyHardware D]]\<rparr>))"
proof -
  note until = handshake_until_type [OF assms, of rest D st]
  have lisy: "bytes_literal ''LISY1'' \<noteq> bytes_literal ''LISY80''"
    by (simp add: bytes_literal_def)
  have one: "system_type (snd (initialize D (0 # s @ 0 # rest) st)) = Some 1"
    if "s = bytes_literal ''LISY1''"
    using that until after_type_keeps_system_type
    by (simp add: initialize_split and_then_returns)
  have eighty: "system_type (snd (initialize D (0 # s @ 0 # rest) st)) = Some 80"
    if "s = bytes_literal ''LISY80''"
    using that until lisy after_type_keeps_system_type
    by (simp add: initialize_split and_then_returns)
  have other: "initialize D (0 # s @ 0 # rest) st =
              (Inl (AssertionError invalid_version_message),
               st\<lparr>reader := Some rest,
                  writer := Some [[GeneralReset D], [InfoGetConnectedLisyHardware D]]\<rparr>)"
    if "s \<noteq> bytes_literal ''LISY1''" "s \<noteq> bytes_literal ''LISY80''"
    using that until by (simp add: initialize_split and_then_raises)
  from one eighty other show ?thesis by blast
qed


text \<open>The answers "LISY1", "LISY80" and "LISY35".\<close>

theorem identify_sets_system_type_witness:
  "0 \<notin> set (bytes_literal ''LISY80'') \<and>
   system_type (snd (initialize example_defines (0 # bytes_literal ''LISY1'' @ 0 # [36, 10, 6])
     init_platform)) = Some 1 \<and>
   system_type (snd (initialize example_defines (0 # bytes_literal ''LISY80'' @ 0 # [36, 10, 6])
     init_platform)) = Some 80 \<and>
   initialize example_defines (0 # bytes_literal ''LISY35'' @ 0 # [36, 10, 6]) init_platform =
     (Inl (AssertionError invalid_version_message),
      init_platform\<lparr>reader := Some [36, 10, 6], writer := Some [[100], [0]]\<rparr>)"
  using identify_sets_system_type [of "bytes_literal ''LISY1''" example_defines "[36, 10, 6]"
      init_platform]
    identify_sets_system_type [of "bytes_literal ''LISY80''" example_defines "[36, 10, 6]"
      init_platform]
    identify_sets_system_type [of "bytes_literal ''LISY35''" example_defines "[36, 10, 6]"
      init_platform]
  by (simp add: bytes_literal_def example_defines_def)

lemma switch_numbers_bytes: "\<forall>n\<in>set switch_numbers. n < 256"
  unfolding switch_numbers_enum by simp

lemma switch_numbers_length: "length switch_numbers = 64"
  unfolding switch_numbers_enum by simp

lemma literal_has_no_zero:
  "0 \<notin> set (bytes_literal ''LISY1'')" "0 \<notin> set (bytes_literal ''LISY80'')"
  by (simp_all add: bytes_literal_def)

lemma handshake_until_switches:
  assumes "s = bytes_literal ''LISY1'' \<or> s = bytes_literal ''LISY80''"
  shows "and_then (and_then (and_then (connect (0 # s @ 0 # l # so # d # rest))
             (\<lambda>u. and_then (reset_platform D) (\<lambda>u. get_type D)))
           (\<lambda>u. get_numbers D)) f st =
         f () (st\<lparr>reader := Some rest,
               writer := Some [[GeneralReset D], [InfoGetConnectedLisyHardware D],
                               [InfoGetNumberOfLamps D], [InfoGetNumberOfSolenoids D],
                               [InfoGetNumberOfDisplays D]],
               system_type := Some (if s = bytes_literal ''LISY1'' then 1 else 80),
               number_of_lamps := Some (uint l), number_of_solenoids := Some (uint so),
               number_of_displays := Some (uint d)\<rparr>)"
proof -
  have zero: "0 \<notin> set s" using assms literal_has_no_zero by auto
  let ?st1 = "st\<lparr>reader := Some (l # so # d # rest),
                   writer := Some [[GeneralReset D], [InfoGetConnectedLisyHardware D]],
                   system_type := Some (if s = bytes_literal ''LISY1'' then 1 else 80)\<rparr>"
  have 1: "and_then (connect (0 # s @ 0 # l # so # d # rest))
             (\<lambda>u. and_then (reset_platform D) (\<lambda>u. get_type D)) st = (Inr (), ?st1)"
    using handshake_until_type [OF zero, of "l # so # d # rest" D st] assms by auto
  have 2: "get_numbers D ?st1 =
    (Inr (), ?st1\<lparr>writer := Some ([[GeneralReset D], [InfoGetConnectedLisyHardware D]] @
                     [[InfoGetNumberOfLamps D], [InfoGetNumberOfSolenoids D],
                      [InfoGetNumberOfDisplays D]]),
                reader := Some rest,
                number_of_lamps := Some (uint l), number_of_solenoids := Some (uint so),
                number_of_displays := Some (uint d)\<rparr>)"
    by (rule get_numbers_reads) simp_all
  have 3: "?st1\<lparr>writer := Some ([[GeneralReset D], [InfoGetConnectedLisyHardware D]] @
                     [[InfoGetNumberOfLamps D], [InfoGetNumberOfSolenoids D],
                      [InfoGetNumberOfDisplays D]]),
                reader := Some rest,
                number_of_lamps := Some (uint l), number_of_solenoids := Some (uint so),
                number_of_displays := Some (uint d)\<rparr> =
            st\<lparr>reader := Some rest,
               writer := Some [[GeneralReset D], [InfoGetConnectedLisyHardware D],
                               [InfoGetNumberOfLamps D], [InfoGetNumberOfSolenoids D],
                               [InfoGetNumberOfDisplays D]],
               system_type := Some (if s = bytes_literal ''LISY1'' then 1 else 80),
               number_of_lamps := Some (uint l), number_of_solenoids := Some (uint so),
               number_of_displays := Some (uint d)\<rparr>"
    by (cases st) simp
  let ?prefix = "and_then (connect (0 # s @ 0 # l # so # d # rest))
             (\<lambda>u. and_then (reset_platform D) (\<lambda>u. get_type D))"
  have "and_then ?prefix (\<lambda>u. get_numbers D) st = get_numbers D ?st1"
    using 1 by (rule and_then_returns [where m = ?prefix])
  also note 2
  also note 3
  finally show ?thesis
    by (rule and_then_returns [where m = "and_then ?prefix (\<lambda>u. get_numbers D)"])
qed

lemma initialize_split_switches:
  "initialize D incoming =
     and_then (and_then (and_then (connect incoming)
         (\<lambda>u. and_then (reset_platform D) (\<lambda>u. get_type D)))
       (\<lambda>u. get_numbers D))
     (\<lambda>u. and_then (read_switches D switch_numbers) (\<lambda>u. create_poll_task))"
  by (simp add: initialize_def and_then_assoc)

lemma switch_numbers_row_major:
  "\<forall>row<8. \<forall>col<8. switch_numbers ! (row * 8 + col) = row * 10 + col"
proof -
  have "\<forall>row\<in>set [0..<8]. \<forall>col\<in>set [0..<8].
      switch_numbers ! (row * 8 + col) = row * 10 + col"
    by code_simp
  then show ?thesis by simp
qed

lemma example_queries:
  "map (switch_query example_defines) switch_numbers =
     [
      [40, 0], [40, 1], [40, 2], [40, 3], [40, 4], [40, 5], [40, 6], [40, 7], [40, 10],
      [40, 11], [40, 12], [40, 13], [40, 14], [40, 15], [40, 16], [40, 17], [40, 20],
      [40, 21], [40, 22], [40, 23], [40, 24], [40, 25], [40, 26], [40, 27], [40, 30],
      [40, 31], [40, 32], [40, 33], [40, 34], [40, 35], [40, 36], [40, 37], [40, 40],
      [40, 41], [40, 42], [40, 43], [40, 44], [40, 45], [40, 46], [40, 47], [40, 50],
      [40, 51], [40, 52], [40, 53], [40, 54], [40, 55], [40, 56], [40, 57], [40, 60],
      [40, 61], [40, 62], [40, 63], [40, 64], [40, 65], [40, 66], [40, 67], [40, 70],
      [40, 71], [40, 72], [40, 73], [40, 74], [40, 75], [40, 76], [40, 77]]"
  unfolding switch_numbers_enum by (simp add: switch_query_def example_defines_def)

lemma example_cache:
  "map (\<lambda>nr. (py_str (int (fst nr)), snd nr = 1))
     (zip switch_numbers ((1::byte) # replicate 63 0)) =
     [
      (''0'', True), (''1'', False), (''2'', False), (''3'', False), (''4'', False),
      (''5'', False), (''6'', False), (''7'', False), (''10'', False), (''11'', False),
      (''12'', False), (''13'', False), (''14'', False), (''15'', False), (''16'', False),
      (''17'', False), (''20'', False), (''21'', False), (''22'', False), (''23'', False),
      (''24'', False), (''25'', False), (''26'', False), (''27'', False), (''30'', False),
      (''31'', False), (''32'', False), (''33'', False), (''34'', False), (''35'', False),
      (''36'', False), (''37'', False), (''40'', False), (''41'', False), (''42'', False),
      (''43'', False), (''44'', False), (''45'', False), (''46'', False), (''47'', False),
      (''50'', False), (''51'', False), (''52'', False), (''53'', False), (''54'', False),
      (''55'', False), (''56'', False), (''57'', False), (''60'', False), (''61'', False),
      (''62'', False), (''63'', False), (''64'', False), (''65'', False), (''66'', False),
      (''67'', False), (''70'', False), (''71'', False), (''72'', False), (''73'', False),
      (''74'', False), (''75'', False), (''76'', False), (''77'', False)]"
  by code_simp

text \<open>
  Claim C7. After a reset answered with 0, an identify answered with "LISY1" or
  "LISY80" and the three capacities, let \<open>rs\<close> be the next 64 bytes of the controller, and
  let the cache be empty before. If every byte of \<open>rs\<close> is 0 or 1, \<^verbatim>\<open>initialize\<close> returns,
  having written one status query for each number of \<open>switch_numbers\<close> in that order, and
  \<open>switch_numbers\<close> is the list 0 to 7, 10 to 17, and so on up to 70 to 77: its entry
  \<open>row * 8 + col\<close> is \<open>row * 10 + col\<close> for rows and columns from 0 to 7. The cache holds
  for each of these numbers, under its decimal string, whether the answer was 1: 64
  entries with distinct keys. If some byte of \<open>rs\<close> is greater than 1, \<^verbatim>\<open>initialize\<close>
  raises the invalid-switch error and the poll task is not created.
\<close>

theorem bulk_switch_read:
  assumes "s = bytes_literal ''LISY1'' \<or> s = bytes_literal ''LISY80''"
    and "length rs = 64" and "inputs st = []"
  shows "((\<forall>r\<in>set rs. r \<le> 1) \<longrightarrow>
            initialize D (0 # s @ 0 # l # so # d # rs @ rest) st =
              (Inr (),
               st\<lparr>reader := Some rest,
                  writer := Some ([[GeneralReset D], [InfoGetConnectedLisyHardware D],
                                   [InfoGetNumberOfLamps D], [InfoGetNumberOfSolenoids D],
                                   [InfoGetNumberOfDisplays D]] @
                                  map (switch_query D) switch_numbers),
                  system_type := Some (if s = bytes_literal ''LISY1'' then 1 else 80),
                  number_of_lamps := Some (uint l), number_of_solenoids := Some (uint so),
                  number_of_displays := Some (uint d),
                  inputs := map (\<lambda>nr. (py_str (int (fst nr)), snd nr = 1)) (zip switch_numbers rs),
                  poll_task := True\<rparr>)) \<and>
         ((\<exists>r\<in>set rs. 1 < r) \<longrightarrow>
            fst (initialize D (0 # s @ 0 # l # so # d # rs @ rest) st) =
              Inl (AssertionError invalid_switch_message) \<and>
            poll_task (snd (initialize D (0 # s @ 0 # l # so # d # rs @ rest) st)) =
              poll_task st) \<and>
         length switch_numbers = 64 \<and>
         distinct (map (\<lambda>n. py_str (int n)) switch_numbers) \<and>
         (\<forall>row<8. \<forall>col<8. switch_numbers ! (row * 8 + col) = row * 10 + col) \<and>
         switch_numbers =
           [
            0, 1, 2, 3, 4, 5, 6, 7, 10, 11, 12, 13, 14, 15, 16, 17, 20, 21, 22, 23, 24, 25,
            26, 27, 30, 31, 32, 33, 34, 35, 36, 37, 40, 41, 42, 43, 44, 45, 46, 47, 50, 51,
            52, 53, 54, 55, 56, 57, 60, 61, 62, 63, 64, 65, 66, 67, 70, 71, 72, 73, 74, 75,
            76, 77]"
proof -
  let ?st2 = "st\<lparr>reader := Some (rs @ rest),
               writer := Some [[GeneralReset D], [InfoGetConnectedLisyHardware D],
                               [InfoGetNumberOfLamps D], [InfoGetNumberOfSolenoids D],
                               [InfoGetNumberOfDisplays D]],
               system_type := Some (if s = bytes_literal ''LISY1'' then 1 else 80),
               number_of_lamps := Some (uint l), number_of_solenoids := Some (uint so),
               number_of_displays := Some (uint d)\<rparr>"
  let ?w = "[[GeneralReset D], [InfoGetConnectedLisyHardware D],
             [InfoGetNumberOfLamps D], [InfoGetNumberOfSolenoids D],
             [InfoGetNumberOfDisplays D]]"
  have init: "initialize D (0 # s @ 0 # l # so # d # rs @ rest) st =
      and_then (read_switches D switch_numbers) (\<lambda>u. create_poll_task) ?st2"
    by (simp only: initialize_split_switches handshake_until_switches [OF assms(1)])
  have len: "length rs = length switch_numbers"
    using assms(2) switch_numbers_length by simp
  have keys: "map (\<lambda>nr. py_str (int (fst nr))) (zip switch_numbers rs) =
      map (\<lambda>n. py_str (int n)) switch_numbers"
  proof -
    have "map (\<lambda>nr. py_str (int (fst nr))) (zip switch_numbers rs) =
        map (\<lambda>n. py_str (int n)) (map fst (zip switch_numbers rs))"
      by (simp add: comp_def)
    then show ?thesis using len by simp
  qed
  have valid: "initialize D (0 # s @ 0 # l # so # d # rs @ rest) st =
      (Inr (), ?st2\<lparr>writer := Some (?w @ map (switch_query D) switch_numbers),
                 reader := Some rest,
                 inputs := map (\<lambda>nr. (py_str (int (fst nr)), snd nr = 1)) (zip switch_numbers rs),
                 poll_task := True\<rparr>)"
    if ok: "\<forall>r\<in>set rs. r \<le> 1"
  proof -
    have "read_switches D switch_numbers ?st2 =
      (Inr (), ?st2\<lparr>writer := Some (?w @ map (switch_query D) switch_numbers),
                 reader := Some rest,
                 inputs := fold store_switch (zip switch_numbers rs) (inputs ?st2)\<rparr>)"
      by (rule read_switches_all_valid) (use len ok switch_numbers_bytes in simp_all)
    moreover have "fold store_switch (zip switch_numbers rs) [] =
        [] @ map (\<lambda>nr. (py_str (int (fst nr)), snd nr = 1)) (zip switch_numbers rs)"
      by (rule fold_store_switch_fresh) (simp add: keys switch_keys_distinct)
    ultimately show ?thesis
      using init assms(3) by (simp add: and_then_returns create_poll_task_def)
  qed
  have invalid: "fst (initialize D (0 # s @ 0 # l # so # d # rs @ rest) st) =
              Inl (AssertionError invalid_switch_message) \<and>
            poll_task (snd (initialize D (0 # s @ 0 # l # so # d # rs @ rest) st)) =
              poll_task st"
    if bad: "\<exists>r\<in>set rs. 1 < r"
  proof -
    have "fst (read_switches D switch_numbers ?st2) = Inl (AssertionError invalid_switch_message) \<and>
         poll_task (snd (read_switches D switch_numbers ?st2)) = poll_task ?st2"
      by (rule read_switches_invalid [where w = ?w and rs = rs and rest = rest])
         (use len bad switch_numbers_bytes in simp_all)
    then show ?thesis
      using init by (cases "read_switches D switch_numbers ?st2") (simp add: and_then_def)
  qed
  from valid invalid have "((\<forall>r\<in>set rs. r \<le> 1) \<longrightarrow>
            initialize D (0 # s @ 0 # l # so # d # rs @ rest) st =
              (Inr (),
               st\<lparr>reader := Some rest,
                  writer := Some ([[GeneralReset D], [InfoGetConnectedLisyHardware D],
                                   [InfoGetNumberOfLamps D], [InfoGetNumberOfSolenoids D],
                                   [InfoGetNumberOfDisplays D]] @
                                  map (switch_query D) switch_numbers),
                  system_type := Some (if s = bytes_literal ''LISY1'' then 1 else 80),
                  number_of_lamps := Some (uint l), number_of_solenoids := Some (uint so),
                  number_of_displays := Some (uint d),
                  inputs := map (\<lambda>nr. (py_str (int (fst nr)), snd nr = 1)) (zip switch_numbers rs),
                  poll_task := True\<rparr>)) \<and>
         ((\<exists>r\<in>set rs. 1 < r) \<longrightarrow>
            fst (initialize D (0 # s @ 0 # l # so # d # rs @ rest) st) =
              Inl (AssertionError invalid_switch_message) \<and>
            poll_task (snd (initialize D (0 # s @ 0 # l # so # d # rs @ rest) st)) =
              poll_task st)"
    by simp
  then show ?thesis
    using switch_numbers_length switch_keys_distinct switch_numbers_row_major
      switch_numbers_enum
    by (intro conjI) (assumption | erule conjunct1 | erule conjunct2)+
qed

text \<open>
  A controller that reports switch 0 closed and all others open, and one that answers
  the first query with 2.
\<close>

theorem bulk_switch_read_witness:
  "initialize example_defines
     (0 # bytes_literal ''LISY80'' @ 0 # 36 # 10 # 6 # (1 # replicate 63 0) @ []) init_platform =
     (Inr (),
      init_platform\<lparr>reader := Some [],
        writer := Some ([[100], [0], [3], [4], [6]] @
                    [
                     [40, 0], [40, 1], [40, 2], [40, 3], [40, 4], [40, 5], [40, 6],
                     [40, 7], [40, 10], [40, 11], [40, 12], [40, 13], [40, 14], [40, 15],
                     [40, 16], [40, 17], [40, 20], [40, 21], [40, 22], [40, 23], [40, 24],
                     [40, 25], [40, 26], [40, 27], [40, 30], [40, 31], [40, 32], [40, 33],
                     [40, 34], [40, 35], [40, 36], [40, 37], [40, 40], [40, 41], [40, 42],
                     [40, 43], [40, 44], [40, 45], [40, 46], [40, 47], [40, 50], [40, 51],
                     [40, 52], [40, 53], [40, 54], [40, 55], [40, 56], [40, 57], [40, 60],
                     [40, 61], [40, 62], [40, 63], [40, 64], [40, 65], [40, 66], [40, 67],
                     [40, 70], [40, 71], [40, 72], [40, 73], [40, 74], [40, 75], [40, 76],
                     [40, 77]]),
        system_type := Some 80, number_of_lamps := Some 36, number_of_solenoids := Some 10,
        number_of_displays := Some 6,
        inputs :=
           [
            (''0'', True), (''1'', False), (''2'', False), (''3'', False), (''4'', False),
            (''5'', False), (''6'', False), (''7'', False), (''10'', False),
            (''11'', False), (''12'', False), (''13'', False), (''14'', False),
            (''15'', False), (''16'', False), (''17'', False), (''20'', False),
            (''21'', False), (''22'', False), (''23'', False), (''24'', False),
            (''25'', False), (''26'', False), (''27'', False), (''30'', False),
            (''31'', False), (''32'', False), (''33'', False), (''34'', False),
            (''35'', False), (''36'', False), (''37'', False), (''40'', False),
            (''41'', False), (''42'', False), (''43'', False), (''44'', False),
            (''45'', False), (''46'', False), (''47'', False), (''50'', False),
            (''51'', False), (''52'', False), (''53'', False), (''54'', False),
            (''55'', False), (''56'', False), (''57'', False), (''60'', False),
            (''61'', False), (''62'', False), (''63'', False), (''64'', False),
            (''65'', False), (''66'', False), (''67'', False), (''70'', False),
            (''71'', False), (''72'', False), (''73'', False), (''74'', False),
            (''75'', False), (''76'', False), (''77'', False)],
        poll_task := True\<rparr>) \<and>
   fst (initialize example_defines
     (0 # bytes_literal ''LISY80'' @ 0 # 36 # 10 # 6 # (2 # replicate 63 0) @ []) init_platform) =
     Inl (AssertionError invalid_switch_message)"
proof -
  have s: "bytes_literal ''LISY80'' = bytes_literal ''LISY1'' \<or>
      bytes_literal ''LISY80'' = bytes_literal ''LISY80''"
    by simp
  have empty: "inputs init_platform = []"
    by (simp add: init_platform_def)
  have len: "length ((1::byte) # replicate 63 0) = 64" "length ((2::byte) # replicate 63 0) = 64"
    by simp_all
  have ok: "\<forall>r\<in>set ((1::byte) # replicate 63 0). r \<le> 1"
    by simp
  have bad: "\<exists>r\<in>set ((2::byte) # replicate 63 0). 1 < r"
    by simp
  have lisy: "bytes_literal ''LISY80'' \<noteq> bytes_literal ''LISY1''"
    by (simp add: bytes_literal_def)
  have 1: "initialize example_defines
     (0 # bytes_literal ''LISY80'' @ 0 # 36 # 10 # 6 # (1 # replicate 63 0) @ []) init_platform =
     (Inr (),
      init_platform\<lparr>reader := Some [],
        writer := Some ([[GeneralReset example_defines],
                         [InfoGetConnectedLisyHardware example_defines],
                         [InfoGetNumberOfLamps example_defines],
                         [InfoGetNumberOfSolenoids example_defines],
                         [InfoGetNumberOfDisplays example_defines]] @
                        map (switch_query example_defines) switch_numbers),
        system_type := Some 80, number_of_lamps := Some (uint (36::byte)),
        number_of_solenoids := Some (uint (10::byte)),
        number_of_displays := Some (uint (6::byte)),
        inputs := map (\<lambda>nr. (py_str (int (fst nr)), snd nr = 1))
                    (zip switch_numbers ((1::byte) # replicate 63 0)),
        poll_task := True\<rparr>)"
    using bulk_switch_read [OF s len(1) empty, of example_defines 36 10 6 "[]"] ok lisy
    by simp
  from bulk_switch_read [OF s len(2) empty, of example_defines 36 10 6 "[]"] bad
  have 2: "fst (initialize example_defines
     (0 # bytes_literal ''LISY80'' @ 0 # 36 # 10 # 6 # (2 # replicate 63 0) @ []) init_platform) =
     Inl (AssertionError invalid_switch_message)"
    by blast
  from 1 2 show ?thesis
    by (simp only: example_queries example_cache) (simp add: example_defines_def)
qed

subsection \<open>Columns of the cached switch numbers\<close>

lemma str_nat_not_empty: "str_nat n \<noteq> []"
  by (subst str_nat.simps) simp

lemma last_str_nat: "last (str_nat n) = digit_char (n mod 10)"
  by (subst str_nat.simps) simp

lemma key_column_str_nat: "key_column (str_nat n) = n mod 10"
proof -
  have "n mod 10 < 10" by simp
  then have "(48 + n mod 10) mod 256 = 48 + n mod 10" by simp
  then show ?thesis
    by (simp add: key_column_def last_str_nat digit_char_def)
qed

lemma key_column_py_str: "0 \<le> i \<Longrightarrow> key_column (py_str i) = nat i mod 10"
  by (simp add: py_str_def key_column_str_nat)

lemma and_then_columns:
  assumes "columns_valid st"
    and "\<And>st. columns_valid st \<Longrightarrow> columns_valid (snd (m st))"
    and "\<And>x st. columns_valid st \<Longrightarrow> columns_valid (snd (g x st))"
  shows "columns_valid (snd (and_then m g st))"
proof (cases "m st")
  case (Pair r st')
  with assms(1) assms(2) [of st] have "columns_valid st'" by simp
  with Pair assms(3) show ?thesis by (cases r) (simp_all add: and_then_def)
qed

lemma send_byte_columns: "columns_valid st \<Longrightarrow> columns_valid (snd (send_byte cmd byte st))"
  by (simp add: columns_valid_def send_byte_def writer_write_def split: option.splits)

lemma read_byte_columns: "columns_valid st \<Longrightarrow> columns_valid (snd (read_byte st))"
  by (simp add: columns_valid_def read_byte_def split: option.splits list.splits)

lemma read_string_columns: "columns_valid st \<Longrightarrow> columns_valid (snd (read_string st))"
  by (simp add: columns_valid_def read_string_def split: option.splits)

lemma update_columns:
  assumes "columns_valid st" and "key_column k \<le> 7"
  shows "columns_valid (st\<lparr>inputs := AList.update k v (inputs st)\<rparr>)"
  using assms by (auto simp: columns_valid_def dom_update)


lemma read_switch_columns:
  assumes "columns_valid st" and "n mod 10 \<le> 7"
  shows "columns_valid (snd (read_switch D n st))"
proof (cases "py_bytes [int n]")
  case (Inl e)
  with assms show ?thesis by (simp add: read_switch_def)
next
  case (Inr bs)
  have key: "key_column (py_str (int n)) \<le> 7"
    using assms(2) by (simp add: key_column_py_str)
  have "columns_valid (snd (and_then (send_byte (SwitchesGetStatusOfSwitch D) (Some bs)) (\<lambda>u.
          and_then read_byte (\<lambda>state st'.
            if 1 < state then (Inl (AssertionError invalid_switch_message), st')
            else (Inr (),
                  st'\<lparr>inputs := AList.update (py_str (int n)) (state = 1) (inputs st')\<rparr>))) st))"
    using assms(1)
    by (intro and_then_columns send_byte_columns read_byte_columns)
       (simp_all add: update_columns key)
  with Inr show ?thesis by (simp add: read_switch_def)
qed

lemma read_switches_columns:
  assumes "columns_valid st" and "\<forall>n\<in>set nums. n mod 10 \<le> 7"
  shows "columns_valid (snd (read_switches D nums st))"
  using assms
proof (induction nums arbitrary: st)
  case Nil
  then show ?case by simp
next
  case (Cons n nums)
  obtain r st' where step: "read_switch D n st = (r, st')" by (cases "read_switch D n st")
  with read_switch_columns [of st n D] Cons.prems have "columns_valid st'"
    by simp
  with step Cons.IH [of st'] Cons.prems(2) show ?case by (cases r) simp_all
qed

lemma switch_numbers_columns: "\<forall>n\<in>set switch_numbers. n mod 10 \<le> 7"
  unfolding switch_numbers_enum by simp

lemma initialize_columns:
  assumes "columns_valid st"
  shows "columns_valid (snd (initialize D incoming st))"
  unfolding initialize_def reset_platform_def get_type_def get_numbers_def
  using assms
  by (intro and_then_columns send_byte_columns read_byte_columns read_string_columns
        read_switches_columns switch_numbers_columns)
     (simp_all add: columns_valid_def connect_def create_poll_task_def)

lemma poll_cycle_columns:
  assumes "columns_valid st" and "reader st = Some (b # bs)"
    and "b = 127 \<or> uint (b AND 0x7F) mod 10 \<le> 7"
  shows "columns_valid (snd (poll_cycle D st))"
proof (cases "writer st")
  case None
  with assms(1) show ?thesis
    by (simp add: poll_cycle_def and_then_def send_byte_def writer_write_def)
next
  case (Some w)
  show ?thesis
  proof (cases "b = 127")
    case True
    with assms(1,2) Some show ?thesis
      by (simp add: poll_cycle_def and_then_def send_byte_def writer_write_def read_byte_def
            columns_valid_def)
  next
    case False
    have "int (unat (b AND 0x7F) mod 10) = uint (b AND 0x7F) mod 10"
      by (simp add: zmod_int)
    with False assms(3) have "unat (b AND 0x7F) mod 10 \<le> 7"
      by linarith
    then have "key_column (py_str (uint (b AND 0x7F))) \<le> 7"
      by (simp add: key_column_py_str)
    with assms(1,2) Some False show ?thesis
      by (auto simp: poll_cycle_def and_then_def send_byte_def writer_write_def read_byte_def
            columns_valid_def Let_def dom_update)
  qed
qed

lemma poll_columns:
  assumes "columns_valid st" and "reader st = Some bs"
    and "\<forall>b\<in>set bs. b = 127 \<or> uint (b AND 0x7F) mod 10 \<le> 7"
  shows "columns_valid (snd (poll D st))"
  using assms
proof (induction D st arbitrary: bs rule: poll.induct)
  case (1 D st)
  obtain r st' where cyc: "poll_cycle D st = (r, st')" by (cases "poll_cycle D st")
  show ?case
  proof (cases r)
    case (Inl e)
    have "columns_valid (snd (poll_cycle D st))"
    proof (cases bs)
      case Nil
      with "1.prems" show ?thesis
        by (simp add: poll_cycle_def and_then_def send_byte_def writer_write_def read_byte_def
              columns_valid_def split: option.splits)
    next
      case (Cons b bs')
      with "1.prems" show ?thesis by (intro poll_cycle_columns [where b = b and bs = bs']) auto
    qed
    with cyc Inl show ?thesis by (simp add: poll.simps [of D st])
  next
    case (Inr u)
    from cyc Inr obtain b bs' where rd: "reader st = Some (b # bs')" "reader st' = Some bs'"
      by (auto simp: poll_cycle_def and_then_def send_byte_def writer_write_def read_byte_def
            Let_def split: option.splits list.splits if_splits)
    with "1.prems" have bs: "bs = b # bs'" by simp
    have "columns_valid (snd (poll_cycle D st))"
      using "1.prems" rd bs by (intro poll_cycle_columns [where b = b and bs = bs']) auto
    with cyc have valid: "columns_valid st'" by simp
    have "columns_valid (snd (poll D st'))"
      using "1.IH" [OF cyc [symmetric] Inr valid rd(2)] "1.prems"(3) bs by simp
    with cyc Inr show ?thesis by (simp add: poll.simps [of D st])
  qed
qed


text \<open>
  Claim C9, amended. The column of the key \<open>str(n)\<close> is \<open>n mod 10\<close>. If every key of the
  cache has a column from 0 to 7 before, this is still so after \<^verbatim>\<open>initialize\<close>, whatever
  the controller sends and whether the handshake succeeds or not: the bulk read stores
  only numbers \<open>row * 10 + col\<close> with \<open>col\<close> from 0 to 7. The poll loop stores
  \<open>str(b & 0x7F)\<close> for each status byte \<open>b\<close> other than 127 and does not look at its
  column; the property is kept by the loop when every status byte the controller sends
  is 127 or has \<open>(b & 0x7F) mod 10 \<le> 7\<close>.
\<close>

theorem cache_key_columns:
  assumes "columns_valid st"
  shows "key_column (py_str (int n)) = n mod 10 \<and>
         columns_valid (snd (initialize D incoming st)) \<and>
         (reader st = Some bs \<and> (\<forall>b\<in>set bs. b = 127 \<or> uint (b AND 0x7F) mod 10 \<le> 7) \<longrightarrow>
            columns_valid (snd (poll D st)))"
  using assms initialize_columns [of st D incoming] poll_columns [of st bs D]
  by (simp add: key_column_py_str)

text \<open>
  An empty cache, a handshake with all 64 switches closed, and a poll loop that reads the
  status bytes 133 and 127 before the stream ends.
\<close>

theorem cache_key_columns_witness:
  "columns_valid init_platform \<and>
   columns_valid (snd (initialize example_defines
     (0 # bytes_literal ''LISY1'' @ 0 # 36 # 10 # 6 # replicate 64 1) init_platform)) \<and>
   columns_valid (snd (poll example_defines
     (init_platform\<lparr>writer := Some [], reader := Some [133, 127]\<rparr>)))"
proof -
  have 1: "columns_valid init_platform"
    by (simp add: columns_valid_def init_platform_def)
  then have 2: "columns_valid (init_platform\<lparr>writer := Some [], reader := Some [133, 127]\<rparr>)"
    by (simp add: columns_valid_def)
  have 3: "reader (init_platform\<lparr>writer := Some [], reader := Some [133, 127]\<rparr>) =
      Some [133, 127] \<and>
      (\<forall>b\<in>set [133, 127 :: byte]. b = 127 \<or> uint (b AND 0x7F) mod 10 \<le> 7)"
    by simp
  from cache_key_columns [OF 1, of 0 example_defines
      "0 # bytes_literal ''LISY1'' @ 0 # 36 # 10 # 6 # replicate 64 1" "[]"]
    cache_key_columns [OF 2, of 0 example_defines "[]" "[133, 127]"] 1 3
  show ?thesis by blast
qed

text \<open>
  The claim as stated, for every sequence of status bytes, fails: on the status byte 8
  the poll loop stores the key "8", whose column is 8.
\<close>

theorem cache_key_columns_counterexample:
  "poll example_defines (init_platform\<lparr>writer := Some [], reader := Some [8]\<rparr>) =
     (IncompleteReadError,
      init_platform\<lparr>writer := Some [[41], [41]], reader := Some [],
        switch_events := [(''8'', 0, Self)], inputs := [(''8'', False)]\<rparr>) \<and>
   ''8'' = py_str 8 \<and> key_column ''8'' = 8 \<and>
   \<not> columns_valid (init_platform\<lparr>writer := Some [[41], [41]], reader := Some [],
        switch_events := [(''8'', 0, Self)], inputs := [(''8'', False)]\<rparr>)"
proof -
  have 1: "poll_cycle example_defines (init_platform\<lparr>writer := Some [], reader := Some [8]\<rparr>) =
     (Inr (), init_platform\<lparr>writer := Some [[41]], reader := Some [],
        switch_events := [(''8'', 0, Self)], inputs := [(''8'', False)]\<rparr>)"
    by (simp add: poll_cycle_def and_then_def send_byte_def writer_write_def read_byte_def
          Let_def example_defines_def init_platform_def py_str_def str_nat.simps
          digit_char_values)
  have 2: "poll_cycle example_defines (init_platform\<lparr>writer := Some [[41]], reader := Some [],
        switch_events := [(''8'', 0, Self)], inputs := [(''8'', False)]\<rparr>) =
     (Inl IncompleteReadError, init_platform\<lparr>writer := Some [[41], [41]], reader := Some [],
        switch_events := [(''8'', 0, Self)], inputs := [(''8'', False)]\<rparr>)"
    by (simp add: poll_cycle_def and_then_def send_byte_def writer_write_def read_byte_def
          Let_def example_defines_def init_platform_def)
  have 3: "poll example_defines (init_platform\<lparr>writer := Some [], reader := Some [8]\<rparr>) =
     (IncompleteReadError,
      init_platform\<lparr>writer := Some [[41], [41]], reader := Some [],
        switch_events := [(''8'', 0, Self)], inputs := [(''8'', False)]\<rparr>)"
    by (subst poll.simps, simp only: 1 prod.case sum.case, subst poll.simps,
        simp only: 2 prod.case sum.case)
  have 4: "''8'' = py_str 8" "key_column ''8'' = 8"
    by (simp_all add: py_str_def str_nat.simps digit_char_values key_column_def)
  from 3 4 show ?thesis
    by (simp add: columns_valid_def)
qed


subsection \<open>Range checks at configuration time\<close>

text \<open>
  What the two range checks do, for a number that \<^verbatim>\<open>int\<close> accepts and capacities that
  the handshake has stored: nothing is written, and the assertion is raised exactly when
  the chained comparison holds.
\<close>

lemma configure_light_raises_iff:
  assumes "py_int num = Some n" and "number_of_lamps st = Some lamps"
  shows "snd (configure_light py_int num st) = st \<and>
         (fst (configure_light py_int num st) = Inr (LisyLight n) \<or>
          (\<exists>msg. fst (configure_light py_int num st) = Inl (AssertionError msg))) \<and>
         ((\<exists>msg. fst (configure_light py_int num st) = Inl (AssertionError msg)) \<longleftrightarrow>
          (if system_type st = Some 80 then 0 < n \<and> lamps \<le> n else 1 < n \<and> lamps < n))"
  using assms by (auto simp: configure_light_def)

lemma configure_segment_display_raises_iff:
  assumes "py_int num = Some n" and "number_of_displays st = Some displays"
  shows "snd (configure_segment_display py_int num st) = st \<and>
         (fst (configure_segment_display py_int num st) = Inr (LisyDisplay n) \<or>
          fst (configure_segment_display py_int num st) =
            Inl (AssertionError invalid_display_message)) \<and>
         (fst (configure_segment_display py_int num st) =
            Inl (AssertionError invalid_display_message) \<longleftrightarrow> 0 < n \<and> displays \<le> n)"
  using assms by (auto simp: configure_segment_display_def)

text \<open>
  Claim C4 asks for an error whenever the lamp number is outside \<open>[0, lamps)\<close> on System
  80 and outside \<open>[1, lamps]\<close> otherwise. The code does not raise below the range: on a
  System 1 with 36 lamps (one indexed) lamp "0" is accepted, and on a System 80 with 36
  lamps lamp "-1" is accepted.
\<close>

theorem configure_light_accepts_below_range:
  "configure_light decimal_int ''0''
     (init_platform\<lparr>system_type := Some 1, number_of_lamps := Some 36\<rparr>) =
     (Inr (LisyLight 0), init_platform\<lparr>system_type := Some 1, number_of_lamps := Some 36\<rparr>) \<and>
   configure_light decimal_int ''-1''
     (init_platform\<lparr>system_type := Some 80, number_of_lamps := Some 36\<rparr>) =
     (Inr (LisyLight (- 1)), init_platform\<lparr>system_type := Some 80, number_of_lamps := Some 36\<rparr>)"
  by (simp add: configure_light_def decimal_int_def nat_of_digits_def init_platform_def)

text \<open>
  Claim C5 asks for an error whenever the display number is at least the display count.
  When the controller reports no display, display "0" is accepted all the same.
\<close>

theorem configure_segment_display_accepts_zero:
  "configure_segment_display decimal_int ''0'' (init_platform\<lparr>number_of_displays := Some 0\<rparr>) =
     (Inr (LisyDisplay 0), init_platform\<lparr>number_of_displays := Some 0\<rparr>)"
  by (simp add: configure_segment_display_def decimal_int_def nat_of_digits_def
        init_platform_def)

subsection \<open>Hardware rules are refused\<close>

text \<open>
  Claim C8. Each of the five hardware-rule operations (the four \<^verbatim>\<open>set_pulse_on_hit*\<close>
  rules and \<^verbatim>\<open>clear_hw_rule\<close>) raises an \<^verbatim>\<open>AssertionError\<close> for every argument and in
  every state of the platform, and leaves the platform as it was: in particular nothing
  is written to the transport, and no call returns normally.
\<close>

theorem hardware_rules_always_raise:
  "set_pulse_on_hit_and_enable_and_release_rule enable_switch coil st =
     (Inl (AssertionError hardware_rules_message), st) \<and>
   set_pulse_on_hit_and_enable_and_release_and_disable_rule enable_switch disable_switch coil st =
     (Inl (AssertionError hardware_rules_message), st) \<and>
   set_pulse_on_hit_and_release_rule enable_switch coil st =
     (Inl (AssertionError hardware_rules_message), st) \<and>
   set_pulse_on_hit_rule enable_switch coil st =
     (Inl (AssertionError hardware_rules_message), st) \<and>
   clear_hw_rule switch coil st = (Inl (AssertionError hardware_rules_message), st)"
  by (simp add: set_pulse_on_hit_and_enable_and_release_rule_def
        set_pulse_on_hit_and_enable_and_release_and_disable_rule_def
        set_pulse_on_hit_and_release_rule_def set_pulse_on_hit_rule_def clear_hw_rule_def)

subsection \<open>One cycle of the poll loop\<close>

text \<open>
  Claim C6. A poll cycle on a connected platform sends the "get changed switches"
  command and reads one status byte \<open>b\<close>. If \<open>b = 127\<close> it sleeps once and changes
  neither the switch events nor the cache. Otherwise it reports the switch
  \<open>str(b & 0x7F)\<close> with state \<open>(b >> 7) & 1\<close> and the platform as source to the switch
  controller, and stores that state, as a boolean, under that key of the cache.
\<close>

theorem poll_cycle_status:
  assumes "writer st = Some w" and "reader st = Some (b # bs)"
  shows "(b = 127 \<longrightarrow>
            poll_cycle D st =
              (Inr (), st\<lparr>writer := Some (w @ [[SwitchesGetChangedSwitches D]]),
                          reader := Some bs, sleeps := Suc (sleeps st)\<rparr>)) \<and>
         (b \<noteq> 127 \<longrightarrow>
            poll_cycle D st =
              (Inr (), st\<lparr>writer := Some (w @ [[SwitchesGetChangedSwitches D]]),
                          reader := Some bs,
                          switch_events := switch_events st @
                            [(py_str (uint (b AND 0x7F)), uint (drop_bit 7 b AND 1), Self)],
                          inputs := AList.update (py_str (uint (b AND 0x7F)))
                            (drop_bit 7 b AND 1 = 1) (inputs st)\<rparr>))"
  using assms
  by (simp add: poll_cycle_def and_then_def send_byte_def writer_write_def read_byte_def
        Let_def bit7_set bit7_shift)

text \<open>
  The status byte 133 reports switch "5" as active; the status byte 127 reports nothing.
\<close>

theorem poll_cycle_status_witness:
  "poll_cycle example_defines (init_platform\<lparr>writer := Some [], reader := Some [133]\<rparr>) =
     (Inr (), init_platform\<lparr>writer := Some [[41]], reader := Some [],
                switch_events := [(''5'', 1, Self)], inputs := [(''5'', True)]\<rparr>) \<and>
   poll_cycle example_defines (init_platform\<lparr>writer := Some [], reader := Some [127]\<rparr>) =
     (Inr (), init_platform\<lparr>writer := Some [[41]], reader := Some [], sleeps := 1\<rparr>)"
  using poll_cycle_status [of "init_platform\<lparr>writer := Some [], reader := Some [133]\<rparr>"
      "[]" 133 "[]" example_defines]
    poll_cycle_status [of "init_platform\<lparr>writer := Some [], reader := Some [127]\<rparr>"
      "[]" 127 "[]" example_defines]
  by (simp add: init_platform_def example_defines_def py_str_def str_nat.simps
        digit_char_values)

end
